theory Spec2Isabelle
  imports Main
begin

section \<open>Documents and the Python operations the analysers apply to them\<close>

text \<open>
  The scripts under \<^verbatim>\<open>skills/k8s-cluster-api/scripts\<close> analyse parsed YAML/JSON
  documents. A document value is what \<^verbatim>\<open>json.loads\<close> or \<^verbatim>\<open>yaml.safe_load\<close>
  returns: \<^verbatim>\<open>None\<close>, a bool, an int, a string, a list or a dict with string keys.
  A dict is an association list in insertion order; the binding of a key is the first
  pair that carries it. Numbers are Python ints: every number the modelled checks
  inspect (a replica count) is an integer in the Cluster API schema. Strings are lists
  of 8-bit characters, read as the code points 0..255.
\<close>

datatype json =
    JNull
  | JBool bool
  | JInt int
  | JStr string
  | JList "json list"
  | JDict "(string \<times> json) list"

text \<open>The exceptions the modelled code can raise on a document of the wrong shape.\<close>

datatype error = TypeError | AttributeError | KeyError | OSError

definition bindE :: "error + 'a \<Rightarrow> ('a \<Rightarrow> error + 'b) \<Rightarrow> error + 'b" where
  "bindE m f = (case m of Inl e \<Rightarrow> Inl e | Inr x \<Rightarrow> f x)"

text \<open>\<^verbatim>\<open>d.get(key, default)\<close>: only a dict has the method.\<close>

fun py_get :: "json \<Rightarrow> string \<Rightarrow> json \<Rightarrow> error + json" where
  "py_get (JDict kvs) k dflt = (case map_of kvs k of None \<Rightarrow> Inr dflt | Some v \<Rightarrow> Inr v)"
| "py_get _ k dflt = Inl AttributeError"

text \<open>\<^verbatim>\<open>needle in haystack\<close> for two strings: \<open>needle\<close> occurs as a substring.\<close>

fun is_substring :: "string \<Rightarrow> string \<Rightarrow> bool" where
  "is_substring needle [] = (needle = [])"
| "is_substring needle (c # cs) = (needle = take (length needle) (c # cs) \<or> is_substring needle cs)"

text \<open>
  \<^verbatim>\<open>key in container\<close> for a string \<open>key\<close>: a dict is searched by key, a list by
  element, a string by substring; \<^verbatim>\<open>None\<close>, bools and ints are not iterable.
\<close>

fun py_in :: "string \<Rightarrow> json \<Rightarrow> error + bool" where
  "py_in k (JDict kvs) = Inr (k \<in> set (map fst kvs))"
| "py_in k (JList xs) = Inr (JStr k \<in> set xs)"
| "py_in k (JStr s) = Inr (is_substring k s)"
| "py_in k _ = Inl TypeError"

text \<open>Truthiness, as \<^verbatim>\<open>if x\<close> and \<^verbatim>\<open>not x\<close> read it.\<close>

fun truthy :: "json \<Rightarrow> bool" where
  "truthy JNull = False"
| "truthy (JBool b) = b"
| "truthy (JInt i) = (i \<noteq> 0)"
| "truthy (JStr s) = (s \<noteq> [])"
| "truthy (JList xs) = (xs \<noteq> [])"
| "truthy (JDict kvs) = (kvs \<noteq> [])"

text \<open>\<^verbatim>\<open>path.split(".")\<close>: the pieces between the dots, one more than there are dots.\<close>

fun py_split :: "string \<Rightarrow> string list" where
  "py_split [] = [[]]"
| "py_split (c # cs) =
     (if c = CHR ''.'' then [] # py_split cs
      else (case py_split cs of [] \<Rightarrow> [[c]] | w # ws \<Rightarrow> (c # w) # ws))"

section \<open>Field resolution (migration\_checker.py)\<close>

text \<open>
  \<^verbatim>\<open>
  def get_nested(data, path):
      keys = path.split(".")
      current = data
      for key in keys:
          if isinstance(current, dict):
              current = current.get(key)
          else:
              return None
      return current
  \<close>
  The loop over the keys is \<open>get_nested_keys\<close>; \<^verbatim>\<open>current.get(key)\<close> yields
  \<^verbatim>\<open>None\<close> for a key the dict lacks.
\<close>

fun get_nested_keys :: "json \<Rightarrow> string list \<Rightarrow> json" where
  "get_nested_keys current [] = current"
| "get_nested_keys (JDict kvs) (k # ks) =
     get_nested_keys (case map_of kvs k of None \<Rightarrow> JNull | Some v \<Rightarrow> v) ks"
| "get_nested_keys _ (k # ks) = JNull"

definition get_nested :: "json \<Rightarrow> string \<Rightarrow> json" where
  "get_nested data path = get_nested_keys data (py_split path)"

text \<open>
  The resolution the specification describes (section 4.1): traverse the keys in
  order; the result is the stored value when every key is present, and the absent
  marker (\<open>None\<close> here, distinct from every stored value, also from a stored
  \<open>JNull\<close>) when a key is missing or an intermediate value is not a mapping.
\<close>

fun spec_resolve :: "json \<Rightarrow> string list \<Rightarrow> json option" where
  "spec_resolve v [] = Some v"
| "spec_resolve (JDict kvs) (k # ks) =
     (case map_of kvs k of None \<Rightarrow> None | Some v \<Rightarrow> spec_resolve v ks)"
| "spec_resolve _ (k # ks) = None"

section \<open>Migration readiness (migration\_checker.py)\<close>

text \<open>
  \<^verbatim>\<open>DEPRECATED_FIELDS\<close>: per kind, the deprecated field paths in the table's
  order, each with its reason and its migration action.
\<close>

definition DEPRECATED_FIELDS :: "(string \<times> (string \<times> string \<times> string) list) list" where
  "DEPRECATED_FIELDS =
   [(''Cluster'',
      [(''spec.topology.rolloutAfter'',
          ''Never implemented, removed in v1beta2'', ''Remove this field''),
       (''spec.topology.class'',
          ''Renamed to spec.topology.classRef.name'', ''Move to spec.topology.classRef.name''),
       (''spec.topology.classNamespace'',
          ''Renamed to spec.topology.classRef.namespace'',
          ''Move to spec.topology.classRef.namespace''),
       (''status.failureReason'',
          ''Moved to status.deprecated.v1beta1.failureReason'', ''Update status handling code''),
       (''status.failureMessage'',
          ''Moved to status.deprecated.v1beta1.failureMessage'', ''Update status handling code'')]),
    (''Machine'',
      [(''spec.nodeDeletionTimeout'',
          ''Renamed to spec.deletion.nodeDeletionTimeoutSeconds'',
          ''Move to spec.deletion.nodeDeletionTimeoutSeconds (as int32)''),
       (''spec.nodeDrainTimeout'',
          ''Renamed to spec.deletion.nodeDrainTimeoutSeconds'',
          ''Move to spec.deletion.nodeDrainTimeoutSeconds (as int32)''),
       (''spec.nodeVolumeDetachTimeout'',
          ''Renamed to spec.deletion.nodeVolumeDetachTimeoutSeconds'',
          ''Move to spec.deletion.nodeVolumeDetachTimeoutSeconds (as int32)'')]),
    (''MachineDeployment'',
      [(''spec.progressDeadlineSeconds'',
          ''Deprecated since v1.9, removed in v1beta2'', ''Remove this field''),
       (''spec.revisionHistoryLimit'',
          ''Removed, controller now cleans up all MachineSets without replicas'',
          ''Remove this field''),
       (''spec.strategy.rollingUpdate.deletePolicy'',
          ''Renamed to spec.deletion.order'', ''Move to spec.deletion.order''),
       (''spec.machineNamingStrategy'',
          ''Renamed to spec.machineNaming'', ''Rename to spec.machineNaming'')]),
    (''MachineSet'',
      [(''spec.deletePolicy'',
          ''Renamed to spec.deletion.order'', ''Move to spec.deletion.order''),
       (''spec.machineNamingStrategy'',
          ''Renamed to spec.machineNaming'', ''Rename to spec.machineNaming'')]),
    (''KubeadmControlPlane'',
      [(''spec.kubeadmConfigSpec.clusterConfiguration.clusterName'',
          ''Inferred from top level, removed to avoid confusion'', ''Remove this field'')])]"

definition OBJECT_REF_FIELDS :: "string list" where
  "OBJECT_REF_FIELDS =
   [''spec.infrastructureRef'', ''spec.controlPlaneRef'', ''spec.bootstrap.configRef'',
    ''spec.template.spec.infrastructureRef'', ''spec.template.spec.bootstrap.configRef'']"

text \<open>\<^verbatim>\<open>class MigrationIssue\<close>; the constructor's default severity is \<^verbatim>\<open>"warning"\<close>.\<close>

record MigrationIssue =
  path :: string
  field :: string
  reason :: string
  action :: string
  mi_severity :: string

definition mk_issue :: "string \<Rightarrow> string \<Rightarrow> string \<Rightarrow> string \<Rightarrow> MigrationIssue" where
  "mk_issue p f r a =
     \<lparr>path = p, field = f, reason = r, action = a, mi_severity = ''warning''\<rparr>"

text \<open>
  \<^verbatim>\<open>key in TABLE\<close> and \<^verbatim>\<open>TABLE[key]\<close> for a module-level table with string keys
  and a key read from a document: a list or a dict is unhashable (\<^verbatim>\<open>TypeError\<close>);
  \<^verbatim>\<open>None\<close>, a bool or an int is hashable and equals no key.
\<close>

fun table_lookup :: "(string \<times> 'a) list \<Rightarrow> json \<Rightarrow> error + 'a option" where
  "table_lookup t (JStr s) = Inr (map_of t s)"
| "table_lookup t (JList xs) = Inl TypeError"
| "table_lookup t (JDict kvs) = Inl TypeError"
| "table_lookup t _ = Inr None"

text \<open>
  \<^verbatim>\<open>
  def check_deprecated_fields(doc, file_path):
      issues = []
      kind = doc.get("kind", "")
      if kind not in DEPRECATED_FIELDS:
          return issues
      for field, info in DEPRECATED_FIELDS[kind].items():
          value = get_nested(doc, field)
          if value is not None:
              issues.append(MigrationIssue(path=file_path, field=field,
                                           reason=info["reason"], action=info["action"]))
      return issues
  \<close>
\<close>

fun deprecated_issues :: "json \<Rightarrow> string \<Rightarrow> (string \<times> string \<times> string) list \<Rightarrow> MigrationIssue list" where
  "deprecated_issues doc file_path [] = []"
| "deprecated_issues doc file_path ((f, r, a) # rest) =
     (if get_nested doc f \<noteq> JNull then [mk_issue file_path f r a] else [])
     @ deprecated_issues doc file_path rest"

definition check_deprecated_fields :: "json \<Rightarrow> string \<Rightarrow> error + MigrationIssue list" where
  "check_deprecated_fields doc file_path =
     bindE (py_get doc ''kind'' (JStr [])) (\<lambda>kind.
     bindE (table_lookup DEPRECATED_FIELDS kind) (\<lambda>entry.
       case entry of
         None \<Rightarrow> Inr []
       | Some entries \<Rightarrow> Inr (deprecated_issues doc file_path entries)))"

text \<open>
  \<^verbatim>\<open>check_object_references\<close>: a reference that is a non-empty dict with
  \<^verbatim>\<open>apiVersion\<close> and without \<^verbatim>\<open>apiGroup\<close> gives an info issue, one with
  \<^verbatim>\<open>namespace\<close> a warning issue.
\<close>

definition object_ref_issues :: "json \<Rightarrow> string \<Rightarrow> string \<Rightarrow> MigrationIssue list" where
  "object_ref_issues doc file_path ref_path =
     (case get_nested doc ref_path of
        JDict kvs \<Rightarrow>
          (if kvs = [] then []
           else
             (if ''apiVersion'' \<in> set (map fst kvs) \<and> ''apiGroup'' \<notin> set (map fst kvs)
              then [(mk_issue file_path (ref_path @ ''.apiVersion'')
                      ''v1beta2 uses apiGroup instead of apiVersion in object references''
                      (''Replace apiVersion with apiGroup (e.g., '' @ [CHR 0x27]
                         @ ''infrastructure.cluster.x-k8s.io'' @ [CHR 0x27] @ '')''))
                     \<lparr>mi_severity := ''info''\<rparr>]
              else [])
             @ (if ''namespace'' \<in> set (map fst kvs)
                then [mk_issue file_path (ref_path @ ''.namespace'')
                       ''namespace field removed from object references in v1beta2''
                       ''Remove namespace field from object reference'']
                else []))
      | _ \<Rightarrow> [])"

definition check_object_references :: "json \<Rightarrow> string \<Rightarrow> MigrationIssue list" where
  "check_object_references doc file_path =
     concat (map (object_ref_issues doc file_path) OBJECT_REF_FIELDS)"

text \<open>
  \<^verbatim>\<open>c.isalpha()\<close> on the code points 0..255: the ASCII letters, the ordinal
  indicators, the micro sign and the Latin-1 letters.
\<close>

definition py_isalpha :: "char \<Rightarrow> bool" where
  "py_isalpha c =
     (let n = (of_char c :: nat) in
        (65 \<le> n \<and> n \<le> 90) \<or> (97 \<le> n \<and> n \<le> 122) \<or> n = 170 \<or> n = 181 \<or> n = 186
        \<or> (192 \<le> n \<and> n \<le> 214) \<or> (216 \<le> n \<and> n \<le> 246) \<or> (248 \<le> n \<and> n \<le> 255))"

definition duration_fields :: "(string \<times> string) list" where
  "duration_fields =
   [(''spec.nodeDeletionTimeout'', ''spec.deletion.nodeDeletionTimeoutSeconds''),
    (''spec.nodeDrainTimeout'', ''spec.deletion.nodeDrainTimeoutSeconds''),
    (''spec.nodeVolumeDetachTimeout'', ''spec.deletion.nodeVolumeDetachTimeoutSeconds''),
    (''spec.template.spec.nodeDeletionTimeout'',
       ''spec.template.spec.deletion.nodeDeletionTimeoutSeconds''),
    (''spec.topology.controlPlane.nodeDeletionTimeout'',
       ''spec.topology.controlPlane.deletion.nodeDeletionTimeoutSeconds'')]"

definition duration_issues :: "json \<Rightarrow> string \<Rightarrow> string \<times> string \<Rightarrow> MigrationIssue list" where
  "duration_issues doc file_path old_new =
     (case get_nested doc (fst old_new) of
        JStr s \<Rightarrow>
          (if list_ex py_isalpha s
           then [mk_issue file_path (fst old_new)
                  ''Duration fields changed from string to int32 seconds''
                  (''Convert to integer seconds and rename to '' @ snd old_new)]
           else [])
      | _ \<Rightarrow> [])"

definition check_duration_fields :: "json \<Rightarrow> string \<Rightarrow> MigrationIssue list" where
  "check_duration_fields doc file_path =
     concat (map (duration_issues doc file_path) duration_fields)"

text \<open>
  \<^verbatim>\<open>check_api_version\<close>: \<^verbatim>\<open>"v1beta1" in api_version\<close>, else
  \<^verbatim>\<open>"v1alpha" in api_version\<close>, on whatever \<^verbatim>\<open>doc.get("apiVersion", "")\<close> is.
\<close>

definition check_api_version :: "json \<Rightarrow> string \<Rightarrow> error + MigrationIssue list" where
  "check_api_version doc file_path =
     bindE (py_get doc ''apiVersion'' (JStr [])) (\<lambda>api_version.
     bindE (py_in ''v1beta1'' api_version) (\<lambda>beta.
       if beta
       then Inr [mk_issue file_path ''apiVersion''
                  ''v1beta1 is deprecated, will be removed in August 2026''
                  ''Migrate to v1beta2 API version'']
       else bindE (py_in ''v1alpha'' api_version) (\<lambda>alpha.
         if alpha
         then Inr [mk_issue file_path ''apiVersion''
                    ''v1alpha versions are deprecated''
                    ''Migrate to v1beta2 API version'']
         else Inr [])))"

text \<open>\<^verbatim>\<open>analyze_document\<close>: the four checks in order, their issues concatenated.\<close>

definition analyze_document :: "json \<Rightarrow> string \<Rightarrow> error + MigrationIssue list" where
  "analyze_document doc file_path =
     bindE (check_api_version doc file_path) (\<lambda>i1.
     bindE (check_deprecated_fields doc file_path) (\<lambda>i2.
       Inr (i1 @ i2 @ check_object_references doc file_path
              @ check_duration_fields doc file_path)))"

section \<open>Rendering values in f-strings\<close>

text \<open>
  An f-string renders a value with \<^verbatim>\<open>str\<close>: a string as itself, any other value
  by its \<^verbatim>\<open>repr\<close>. The \<^verbatim>\<open>repr\<close> of a string quotes it (with double quotes when
  it holds a single quote and no double quote) and escapes the backslash, the quote
  and the characters that are not printable.
\<close>

definition digit_char :: "nat \<Rightarrow> char" where
  "digit_char d = ''0123456789'' ! d"

fun nat_digits :: "nat \<Rightarrow> string" where
  "nat_digits n = (if n < 10 then [digit_char n] else nat_digits (n div 10) @ [digit_char (n mod 10)])"

declare nat_digits.simps [simp del]

definition int_str :: "int \<Rightarrow> string" where
  "int_str i = (if i < 0 then CHR ''-'' # nat_digits (nat (- i)) else nat_digits (nat i))"

definition hex_char :: "nat \<Rightarrow> char" where
  "hex_char d = ''0123456789abcdef'' ! d"

definition repr_char :: "char \<Rightarrow> char \<Rightarrow> string" where
  "repr_char q c =
     (let n = (of_char c :: nat) in
        if c = q \<or> n = 92 then [CHR 0x5C, c]
        else if n = 9 then [CHR 0x5C, CHR ''t'']
        else if n = 10 then [CHR 0x5C, CHR ''n'']
        else if n = 13 then [CHR 0x5C, CHR ''r'']
        else if n < 32 \<or> n = 127 \<or> (128 \<le> n \<and> n \<le> 160) \<or> n = 173
        then [CHR 0x5C, CHR ''x'', hex_char (n div 16), hex_char (n mod 16)]
        else [c])"

definition repr_str :: "string \<Rightarrow> string" where
  "repr_str s =
     (let q = (if CHR 0x27 \<in> set s \<and> CHR 0x22 \<notin> set s then CHR 0x22 else CHR 0x27)
      in [q] @ concat (map (repr_char q) s) @ [q])"

fun py_repr :: "json \<Rightarrow> string"
  and repr_elems :: "json list \<Rightarrow> string"
  and repr_items :: "(string \<times> json) list \<Rightarrow> string" where
  "py_repr JNull = ''None''"
| "py_repr (JBool b) = (if b then ''True'' else ''False'')"
| "py_repr (JInt i) = int_str i"
| "py_repr (JStr s) = repr_str s"
| "py_repr (JList xs) = ''['' @ repr_elems xs @ '']''"
| "py_repr (JDict kvs) = ''{'' @ repr_items kvs @ ''}''"
| "repr_elems [] = []"
| "repr_elems [x] = py_repr x"
| "repr_elems (x # y # ys) = py_repr x @ '', '' @ repr_elems (y # ys)"
| "repr_items [] = []"
| "repr_items [(k, v)] = repr_str k @ '': '' @ py_repr v"
| "repr_items ((k, v) # kv # kvs) = repr_str k @ '': '' @ py_repr v @ '', '' @ repr_items (kv # kvs)"

definition py_str :: "json \<Rightarrow> string" where
  "py_str v = (case v of JStr s \<Rightarrow> s | _ \<Rightarrow> py_repr v)"

section \<open>Security audit (audit\_security.py)\<close>

text \<open>
  \<^verbatim>\<open>class Finding\<close> (severity is one of high, medium, low, info) and
  \<^verbatim>\<open>class AuditReport\<close>, whose counts are properties recomputed from the list:
  \<^verbatim>\<open>
  def add(self, severity, category, resource, message, recommendation=""):
      self.findings.append(Finding(severity, category, resource, message, recommendation))
  @property
  def high_count(self):   return sum(1 for f in self.findings if f.severity == "high")
  @property
  def medium_count(self): return sum(1 for f in self.findings if f.severity == "medium")
  @property
  def low_count(self):    return sum(1 for f in self.findings if f.severity == "low")
  \<close>
\<close>

record Finding =
  severity :: string
  category :: string
  resource :: string
  message :: string
  recommendation :: string

record AuditReport =
  cluster_name :: string
  findings :: "Finding list"

definition add :: "AuditReport \<Rightarrow> string \<Rightarrow> string \<Rightarrow> string \<Rightarrow> string \<Rightarrow> string \<Rightarrow> AuditReport" where
  "add report sev cat res msg rec =
     report\<lparr>findings := findings report
       @ [\<lparr>severity = sev, category = cat, resource = res, message = msg,
           recommendation = rec\<rparr>]\<rparr>"

definition high_count :: "AuditReport \<Rightarrow> nat" where
  "high_count report = length (filter (\<lambda>f. severity f = ''high'') (findings report))"

definition medium_count :: "AuditReport \<Rightarrow> nat" where
  "medium_count report = length (filter (\<lambda>f. severity f = ''medium'') (findings report))"

definition low_count :: "AuditReport \<Rightarrow> nat" where
  "low_count report = length (filter (\<lambda>f. severity f = ''low'') (findings report))"

text \<open>
  The resource label every check builds first:
  \<^verbatim>\<open>
  name = cluster.get("metadata", {}).get("name", "unknown")
  namespace = cluster.get("metadata", {}).get("namespace", "default")
  resource = f"Cluster/{namespace}/{name}"
  \<close>
\<close>

definition resource_label :: "string \<Rightarrow> json \<Rightarrow> error + string" where
  "resource_label knd obj =
     bindE (py_get obj ''metadata'' (JDict [])) (\<lambda>m1.
     bindE (py_get m1 ''name'' (JStr ''unknown'')) (\<lambda>nm.
     bindE (py_get obj ''metadata'' (JDict [])) (\<lambda>m2.
     bindE (py_get m2 ''namespace'' (JStr ''default'')) (\<lambda>ns.
       Inr (knd @ ''/'' @ py_str ns @ ''/'' @ py_str nm)))))"

text \<open>
  A value in arithmetic and in comparisons with an int: an int is itself, a bool is
  0 or 1, and every other value raises \<^verbatim>\<open>TypeError\<close> in \<^verbatim>\<open>x < 3\<close>.
\<close>

fun py_num :: "json \<Rightarrow> int option" where
  "py_num (JInt n) = Some n"
| "py_num (JBool b) = Some (if b then 1 else 0)"
| "py_num _ = None"

text \<open>
  \<^verbatim>\<open>
  def check_replicas(cluster, report):
      ...
      spec = cluster.get("spec", {})
      topology = spec.get("topology", {})
      cp = topology.get("controlPlane", {})
      cp_replicas = cp.get("replicas", 1)
      if cp_replicas < 3:
          report.add(severity="medium" if cp_replicas == 1 else "low",
                     category="Availability", resource=resource,
                     message=f"Control plane has {cp_replicas} replica(s) (recommend 3 for HA)",
                     recommendation="Use 3 control plane replicas for production HA")
      if cp_replicas % 2 == 0:
          report.add(severity="low", category="Availability", resource=resource,
                     message=f"Control plane has even number of replicas ({cp_replicas})",
                     recommendation="Use odd number of replicas for proper etcd quorum")
  \<close>
  The function mutates the report; the model returns the report it leaves. Nothing
  raises after the first \<^verbatim>\<open>add\<close>.
\<close>

definition check_replicas :: "json \<Rightarrow> AuditReport \<Rightarrow> error + AuditReport" where
  "check_replicas cluster report =
     bindE (resource_label ''Cluster'' cluster) (\<lambda>res.
     bindE (py_get cluster ''spec'' (JDict [])) (\<lambda>spec.
     bindE (py_get spec ''topology'' (JDict [])) (\<lambda>topology.
     bindE (py_get topology ''controlPlane'' (JDict [])) (\<lambda>cp.
     bindE (py_get cp ''replicas'' (JInt 1)) (\<lambda>cp_replicas.
       case py_num cp_replicas of
         None \<Rightarrow> Inl TypeError
       | Some n \<Rightarrow>
           let r1 =
             (if n < 3
              then add report (if n = 1 then ''medium'' else ''low'') ''Availability'' res
                     (''Control plane has '' @ py_str cp_replicas
                        @ '' replica(s) (recommend 3 for HA)'')
                     ''Use 3 control plane replicas for production HA''
              else report)
           in Inr (if n mod 2 = 0
                   then add r1 ''low'' ''Availability'' res
                          (''Control plane has even number of replicas (''
                             @ py_str cp_replicas @ '')'')
                          ''Use odd number of replicas for proper etcd quorum''
                   else r1))))))"

text \<open>
  Iterating a value (\<^verbatim>\<open>for var in variables\<close>): a list gives its elements, a dict
  its keys, a string its characters; anything else is not iterable.
\<close>

fun py_iter :: "json \<Rightarrow> error + json list" where
  "py_iter (JList xs) = Inr xs"
| "py_iter (JDict kvs) = Inr (map (\<lambda>kv. JStr (fst kv)) kvs)"
| "py_iter (JStr s) = Inr (map (\<lambda>c. JStr [c]) s)"
| "py_iter _ = Inl TypeError"

text \<open>
  \<^verbatim>\<open>any(var.get("name") in ["cni", "networkPlugin", "calico", "cilium"] for var in variables)\<close>
  stops at the first variable that matches.
\<close>

fun any_cni :: "json list \<Rightarrow> error + bool" where
  "any_cni [] = Inr False"
| "any_cni (var # rest) =
     bindE (py_get var ''name'' JNull) (\<lambda>nm.
       if nm \<in> set [JStr ''cni'', JStr ''networkPlugin'', JStr ''calico'', JStr ''cilium'']
       then Inr True else any_cni rest)"

text \<open>
  \<^verbatim>\<open>check_network_security\<close>: an info finding when \<^verbatim>\<open>spec.clusterNetwork\<close> is
  missing or empty, and one when no topology variable names a CNI plugin. An exception
  is not caught by the caller and ends the run, so the model keeps no report then.
\<close>

definition check_network_security :: "json \<Rightarrow> AuditReport \<Rightarrow> error + AuditReport" where
  "check_network_security cluster report =
     bindE (resource_label ''Cluster'' cluster) (\<lambda>res.
     bindE (py_get cluster ''spec'' (JDict [])) (\<lambda>spec.
     bindE (py_get spec ''clusterNetwork'' (JDict [])) (\<lambda>network.
       let r1 =
         (if \<not> truthy network
          then add report ''info'' ''Network'' res
                 ''No explicit clusterNetwork configuration''
                 ''Define clusterNetwork with appropriate CIDR ranges''
          else report)
       in
     bindE (py_get spec ''topology'' (JDict [])) (\<lambda>topology.
     bindE (py_get topology ''variables'' (JList [])) (\<lambda>variables.
     bindE (py_iter variables) (\<lambda>vars.
     bindE (any_cni vars) (\<lambda>cni_configured.
       Inr (if \<not> cni_configured
            then add r1 ''info'' ''Network'' res
                   ''CNI configuration not found in cluster variables''
                   ''Ensure CNI plugin is configured (calico, cilium, etc.)''
            else r1))))))))"

section \<open>Provider contracts (check\_provider\_contract.py)\<close>

text \<open>
  \<^verbatim>\<open>class ContractViolation\<close> (severity is one of error, warning, info) and
  \<^verbatim>\<open>class ContractReport\<close>. The CRD name a violation carries is whatever
  \<^verbatim>\<open>crd.get("metadata", {}).get("name", "unknown")\<close> returned.
  \<^verbatim>\<open>
  def add_violation(self, severity, category, crd, message, requirement=""):
      self.violations.append(ContractViolation(severity, category, crd, message, requirement))
  @property
  def error_count(self):  return sum(1 for v in self.violations if v.severity == "error")
  @property
  def is_compliant(self): return self.error_count == 0
  \<close>
\<close>

record ContractViolation =
  v_severity :: string
  v_category :: string
  crd :: json
  v_message :: string
  requirement :: string

record ContractReport =
  provider :: string
  provider_type :: string
  violations :: "ContractViolation list"
  checked_crds :: "json list"

definition add_violation ::
  "ContractReport \<Rightarrow> string \<Rightarrow> string \<Rightarrow> json \<Rightarrow> string \<Rightarrow> string \<Rightarrow> ContractReport" where
  "add_violation report sev cat c msg req =
     report\<lparr>violations := violations report
       @ [\<lparr>v_severity = sev, v_category = cat, crd = c, v_message = msg,
           requirement = req\<rparr>]\<rparr>"

definition error_count :: "ContractReport \<Rightarrow> nat" where
  "error_count report = length (filter (\<lambda>v. v_severity v = ''error'') (violations report))"

definition is_compliant :: "ContractReport \<Rightarrow> bool" where
  "is_compliant report = (error_count report = 0)"













section \<open>Template lint (lint\_cluster\_templates.py)\<close>

datatype Severity = ERROR | WARNING | INFO

record LintIssue =
  li_severity :: Severity
  li_message :: string
  li_file :: string
  line :: "int option"
  suggestion :: "string option"




text \<open>
  \<^verbatim>\<open>CAPI_API_VERSIONS\<close> (deprecated flag, replacement), \<^verbatim>\<open>CAPI_KINDS\<close> (the
  \<^verbatim>\<open>required_spec\<close> list of each kind) and the lint script's own
  \<^verbatim>\<open>DEPRECATED_FIELDS\<close> (field path, since, message).
\<close>

definition CAPI_API_VERSIONS :: "(string \<times> bool \<times> string option) list" where
  "CAPI_API_VERSIONS =
   [(''cluster.x-k8s.io/v1alpha3'', True, Some ''v1beta1''),
    (''cluster.x-k8s.io/v1alpha4'', True, Some ''v1beta1''),
    (''cluster.x-k8s.io/v1beta1'', False, None)]"

definition CAPI_KINDS :: "(string \<times> string list) list" where
  "CAPI_KINDS =
   [(''Cluster'', [''infrastructureRef'', ''controlPlaneRef'']),
    (''Machine'', [''clusterName'', ''bootstrap'', ''infrastructureRef'']),
    (''MachineDeployment'', [''clusterName'', ''template'']),
    (''MachineSet'', [''clusterName'', ''template'']),
    (''ClusterClass'', [''infrastructure'', ''controlPlane'']),
    (''MachineHealthCheck'', [''clusterName'', ''selector'', ''unhealthyConditions'']),
    (''MachinePool'', [''clusterName'', ''template''])]"

definition LINT_DEPRECATED_FIELDS :: "(string \<times> (string \<times> string \<times> string) list) list" where
  "LINT_DEPRECATED_FIELDS =
   [(''Cluster'',
      [(''spec.paused'', ''v1.4.0'',
        ''Use spec.topology.controlPlane/workers for managed clusters'')]),
    (''Machine'',
      [(''spec.version'', ''v1.5.0'',
        ''Version is now inherited from control plane or topology'')])]"

definition lint_issue :: "Severity \<Rightarrow> string \<Rightarrow> string \<Rightarrow> int \<Rightarrow> string option \<Rightarrow> LintIssue" where
  "lint_issue sev msg file_path start_line sugg =
     \<lparr>li_severity = sev, li_message = msg, li_file = file_path, line = Some start_line,
      suggestion = sugg\<rparr>"

text \<open>
  \<^verbatim>\<open>lint_document\<close>, lines 206 to 244: the required top-level fields.
  \<^verbatim>\<open>
  if "apiVersion" not in doc: issues.append(... "Missing required field: apiVersion" ...)
  if "kind" not in doc:       issues.append(... "Missing required field: kind" ...)
  if "metadata" not in doc:   issues.append(... "Missing required field: metadata" ...)
  elif "name" not in doc.get("metadata", {}):
                              issues.append(... "Missing required field: metadata.name" ...)
  \<close>
\<close>

definition lint_top_level :: "json \<Rightarrow> string \<Rightarrow> int \<Rightarrow> error + LintIssue list" where
  "lint_top_level doc file_path start_line =
     bindE (py_in ''apiVersion'' doc) (\<lambda>has_api.
     bindE (py_in ''kind'' doc) (\<lambda>has_kind.
     bindE (py_in ''metadata'' doc) (\<lambda>has_meta.
     bindE (if has_meta
            then bindE (py_get doc ''metadata'' (JDict [])) (\<lambda>metadata.
                 bindE (py_in ''name'' metadata) (\<lambda>has_name.
                   Inr (if has_name then []
                        else [lint_issue ERROR ''Missing required field: metadata.name''
                                file_path start_line None])))
            else Inr [lint_issue ERROR ''Missing required field: metadata''
                        file_path start_line None]) (\<lambda>meta_issues.
       Inr ((if has_api then []
             else [lint_issue ERROR ''Missing required field: apiVersion''
                     file_path start_line None])
            @ (if has_kind then []
               else [lint_issue ERROR ''Missing required field: kind''
                       file_path start_line None])
            @ meta_issues)))))"

text \<open>
  Lines 246 to 260: the API version. A version found in the table is a string.
\<close>

definition lint_api_version :: "json \<Rightarrow> string \<Rightarrow> int \<Rightarrow> error + LintIssue list" where
  "lint_api_version doc file_path start_line =
     bindE (py_get doc ''apiVersion'' (JStr [])) (\<lambda>api_version.
     bindE (table_lookup CAPI_API_VERSIONS api_version) (\<lambda>version_info.
       case version_info of
         None \<Rightarrow> Inr []
       | Some (deprecated, replacement) \<Rightarrow>
           Inr (if deprecated
                then [lint_issue WARNING (''Deprecated API version: '' @ py_str api_version)
                        file_path start_line
                        (Some (''Use cluster.x-k8s.io/''
                                 @ (case replacement of None \<Rightarrow> ''v1beta1'' | Some r \<Rightarrow> r)))]
                else [])))"

text \<open>
  Lines 262 to 282: the required spec fields of the kind.
  \<^verbatim>\<open>
  kind = doc.get("kind", "")
  if kind in CAPI_KINDS:
      kind_info = CAPI_KINDS[kind]
      spec = doc.get("spec", {})
      for required_field in kind_info.get("required_spec", []):
          # For topology-based clusters, some fields are optional
          if kind == "Cluster" and "topology" in spec:
              if required_field in ["infrastructureRef", "controlPlaneRef"]:
                  continue
          if required_field not in spec:
              issues.append(LintIssue(severity=Severity.ERROR,
                  message=f"Missing required spec field for {kind}: {required_field}",
                  file=file_path, line=start_line))
  \<close>
  \<open>lint_required_field\<close> is one turn of the loop.
\<close>

definition lint_required_field :: "string \<Rightarrow> json \<Rightarrow> string \<Rightarrow> int \<Rightarrow> string \<Rightarrow> error + LintIssue list" where
  "lint_required_field knd spec file_path start_line required_field =
     bindE (if knd = ''Cluster'' then py_in ''topology'' spec else Inr False) (\<lambda>topology_based.
       if topology_based \<and> required_field \<in> set [''infrastructureRef'', ''controlPlaneRef'']
       then Inr []
       else
         bindE (py_in required_field spec) (\<lambda>present.
           Inr (if present then []
                else [lint_issue ERROR
                        (''Missing required spec field for '' @ knd @ '': '' @ required_field)
                        file_path start_line None])))"

fun lint_required_loop :: "string \<Rightarrow> json \<Rightarrow> string \<Rightarrow> int \<Rightarrow> string list \<Rightarrow> error + LintIssue list" where
  "lint_required_loop knd spec file_path start_line [] = Inr []"
| "lint_required_loop knd spec file_path start_line (required_field # rest) =
     bindE (lint_required_field knd spec file_path start_line required_field) (\<lambda>found_issues.
     bindE (lint_required_loop knd spec file_path start_line rest) (\<lambda>more.
       Inr (found_issues @ more)))"

definition lint_required_spec :: "json \<Rightarrow> json \<Rightarrow> string \<Rightarrow> int \<Rightarrow> error + LintIssue list" where
  "lint_required_spec doc knd file_path start_line =
     bindE (table_lookup CAPI_KINDS knd) (\<lambda>kind_info.
       case kind_info of
         None \<Rightarrow> Inr []
       | Some required_spec \<Rightarrow>
           bindE (py_get doc ''spec'' (JDict [])) (\<lambda>spec.
             lint_required_loop (py_str knd) spec file_path start_line required_spec))"

text \<open>
  Lines 284 to 307: the deprecated fields of the kind, each found by walking the
  document.
  \<^verbatim>\<open>
  if kind in DEPRECATED_FIELDS:
      for field_path, deprecation_info in DEPRECATED_FIELDS[kind].items():
          parts = field_path.split(".")
          current = doc
          found = True
          for part in parts:
              if isinstance(current, dict) and part in current:
                  current = current[part]
              else:
                  found = False
                  break
          if found:
              issues.append(LintIssue(severity=Severity.WARNING,
                  message=f"Deprecated field '{field_path}' (since {deprecation_info['since']})",
                  file=file_path, line=start_line,
                  suggestion=deprecation_info.get("message")))
  \<close>
\<close>

fun lint_found :: "json \<Rightarrow> string list \<Rightarrow> bool" where
  "lint_found current [] = True"
| "lint_found (JDict kvs) (part # parts) =
     (case map_of kvs part of None \<Rightarrow> False | Some v \<Rightarrow> lint_found v parts)"
| "lint_found _ (part # parts) = False"

fun lint_deprecated_loop :: "json \<Rightarrow> string \<Rightarrow> int \<Rightarrow> (string \<times> string \<times> string) list \<Rightarrow> LintIssue list" where
  "lint_deprecated_loop doc file_path start_line [] = []"
| "lint_deprecated_loop doc file_path start_line ((field_path, since, msg) # rest) =
     (if lint_found doc (py_split field_path)
      then [lint_issue WARNING
              (''Deprecated field '' @ [CHR 0x27] @ field_path @ [CHR 0x27]
                 @ '' (since '' @ since @ '')'')
              file_path start_line (Some msg)]
      else [])
     @ lint_deprecated_loop doc file_path start_line rest"

definition lint_deprecated :: "json \<Rightarrow> json \<Rightarrow> string \<Rightarrow> int \<Rightarrow> error + LintIssue list" where
  "lint_deprecated doc knd file_path start_line =
     bindE (table_lookup LINT_DEPRECATED_FIELDS knd) (\<lambda>entry.
       case entry of
         None \<Rightarrow> Inr []
       | Some entries \<Rightarrow> Inr (lint_deprecated_loop doc file_path start_line entries))"

definition lint_document :: "json \<Rightarrow> string \<Rightarrow> int \<Rightarrow> error + LintIssue list" where
  "lint_document doc file_path start_line =
     bindE (lint_top_level doc file_path start_line) (\<lambda>i1.
     bindE (lint_api_version doc file_path start_line) (\<lambda>i2.
     bindE (py_get doc ''kind'' (JStr [])) (\<lambda>knd.
     bindE (lint_required_spec doc knd file_path start_line) (\<lambda>i3.
     bindE (lint_deprecated doc knd file_path start_line) (\<lambda>i4.
       Inr (i1 @ i2 @ i3 @ i4))))))"


section \<open>Manifest validation (validate\_manifests.py)\<close>

text \<open>
  \<^verbatim>\<open>class ValidationError\<close>; the constructor's default severity is \<^verbatim>\<open>"error"\<close>.
  \<^verbatim>\<open>REQUIRED_FIELDS\<close> gives each kind its required spec fields.
\<close>

record ValidationError =
  ve_path :: string
  ve_message :: string
  ve_severity :: string

definition mk_error :: "string \<Rightarrow> string \<Rightarrow> ValidationError" where
  "mk_error p msg = \<lparr>ve_path = p, ve_message = msg, ve_severity = ''error''\<rparr>"

definition REQUIRED_FIELDS :: "(string \<times> string list) list" where
  "REQUIRED_FIELDS =
   [(''Cluster'', [''infrastructureRef'']),
    (''Machine'', [''clusterName'', ''bootstrap'', ''infrastructureRef'']),
    (''MachineDeployment'', [''clusterName'', ''selector'', ''template'']),
    (''MachineSet'', [''clusterName'', ''selector'', ''template'']),
    (''MachineHealthCheck'', [''clusterName'', ''selector'']),
    (''ClusterClass'', [''infrastructure'', ''controlPlane'', ''workers'']),
    (''KubeadmConfig'', []),
    (''KubeadmControlPlane'', [''version''])]"

text \<open>
  The kind-specific validators. \<^verbatim>\<open>_validate_cluster_spec\<close>:
  \<^verbatim>\<open>
  infra_ref = spec.get("infrastructureRef", {})
  if infra_ref:
      if not infra_ref.get("kind"): errors.append(ValidationError(
          "spec.infrastructureRef.kind", "Missing kind in infrastructureRef"))
      if not infra_ref.get("name"): errors.append(ValidationError(
          "spec.infrastructureRef.name", "Missing name in infrastructureRef"))
  cp_ref = spec.get("controlPlaneRef", {})
  if cp_ref:
      if not cp_ref.get("kind"): errors.append(ValidationError(
          "spec.controlPlaneRef.kind", "Missing kind in controlPlaneRef"))
  \<close>
\<close>

definition validate_cluster_spec :: "json \<Rightarrow> error + ValidationError list" where
  "validate_cluster_spec spec =
     bindE (py_get spec ''infrastructureRef'' (JDict [])) (\<lambda>infra_ref.
     bindE (if truthy infra_ref
            then bindE (py_get infra_ref ''kind'' JNull) (\<lambda>k.
                 bindE (py_get infra_ref ''name'' JNull) (\<lambda>n.
                   Inr ((if \<not> truthy k
                         then [mk_error ''spec.infrastructureRef.kind''
                                 ''Missing kind in infrastructureRef'']
                         else [])
                        @ (if \<not> truthy n
                           then [mk_error ''spec.infrastructureRef.name''
                                   ''Missing name in infrastructureRef'']
                           else []))))
            else Inr []) (\<lambda>e1.
     bindE (py_get spec ''controlPlaneRef'' (JDict [])) (\<lambda>cp_ref.
     bindE (if truthy cp_ref
            then bindE (py_get cp_ref ''kind'' JNull) (\<lambda>k.
                   Inr (if \<not> truthy k
                        then [mk_error ''spec.controlPlaneRef.kind''
                                ''Missing kind in controlPlaneRef'']
                        else []))
            else Inr []) (\<lambda>e2.
       Inr (e1 @ e2)))))"

text \<open>
  \<^verbatim>\<open>_validate_machine_spec\<close>: a non-empty bootstrap must have
  \<^verbatim>\<open>configRef\<close> or \<^verbatim>\<open>dataSecretName\<close>.
\<close>

definition validate_machine_spec :: "json \<Rightarrow> error + ValidationError list" where
  "validate_machine_spec spec =
     bindE (py_get spec ''bootstrap'' (JDict [])) (\<lambda>bootstrap.
       if truthy bootstrap
       then bindE (py_get bootstrap ''configRef'' JNull) (\<lambda>config_ref.
              if \<not> truthy config_ref
              then bindE (py_get bootstrap ''dataSecretName'' JNull) (\<lambda>secret.
                     Inr (if \<not> truthy secret
                          then [mk_error ''spec.bootstrap''
                                  ''Must have either configRef or dataSecretName'']
                          else []))
              else Inr [])
       else Inr [])"

text \<open>
  \<^verbatim>\<open>_validate_machine_deployment_spec\<close>: a non-empty template must carry
  \<^verbatim>\<open>spec.bootstrap\<close> and \<^verbatim>\<open>spec.infrastructureRef\<close>.
\<close>

definition validate_machine_deployment_spec :: "json \<Rightarrow> error + ValidationError list" where
  "validate_machine_deployment_spec spec =
     bindE (py_get spec ''template'' (JDict [])) (\<lambda>template.
       if truthy template
       then bindE (py_get template ''spec'' (JDict [])) (\<lambda>template_spec.
            bindE (py_get template_spec ''bootstrap'' JNull) (\<lambda>b.
            bindE (py_get template_spec ''infrastructureRef'' JNull) (\<lambda>i.
              Inr ((if \<not> truthy b
                    then [mk_error ''spec.template.spec.bootstrap''
                            ''Missing bootstrap in template'']
                    else [])
                   @ (if \<not> truthy i
                      then [mk_error ''spec.template.spec.infrastructureRef''
                              ''Missing infrastructureRef in template'']
                      else [])))))
       else Inr [])"

text \<open>
  \<^verbatim>\<open>_validate_cluster_class_spec\<close>: non-empty \<^verbatim>\<open>infrastructure\<close> and
  \<^verbatim>\<open>controlPlane\<close> must carry a \<^verbatim>\<open>ref\<close>.
\<close>

definition validate_cluster_class_spec :: "json \<Rightarrow> error + ValidationError list" where
  "validate_cluster_class_spec spec =
     bindE (py_get spec ''infrastructure'' (JDict [])) (\<lambda>infra.
     bindE (if truthy infra
            then bindE (py_get infra ''ref'' JNull) (\<lambda>r.
                   Inr (if \<not> truthy r
                        then [mk_error ''spec.infrastructure.ref''
                                ''Missing ref in infrastructure'']
                        else []))
            else Inr []) (\<lambda>e1.
     bindE (py_get spec ''controlPlane'' (JDict [])) (\<lambda>cp.
     bindE (if truthy cp
            then bindE (py_get cp ''ref'' JNull) (\<lambda>r.
                   Inr (if \<not> truthy r
                        then [mk_error ''spec.controlPlane.ref''
                                ''Missing ref in controlPlane'']
                        else []))
            else Inr []) (\<lambda>e2.
       Inr (e1 @ e2)))))"

definition validate_kind_specific :: "json \<Rightarrow> json \<Rightarrow> error + ValidationError list" where
  "validate_kind_specific knd spec =
     (if knd = JStr ''Cluster'' then validate_cluster_spec spec
      else if knd = JStr ''Machine'' then validate_machine_spec spec
      else if knd = JStr ''MachineDeployment'' then validate_machine_deployment_spec spec
      else if knd = JStr ''ClusterClass'' then validate_cluster_class_spec spec
      else Inr [])"

text \<open>
  \<^verbatim>\<open>
  def validate_spec(doc):
      errors = []
      kind = doc.get("kind", "")
      spec = doc.get("spec", {})
      if not spec:
          errors.append(ValidationError("spec", "Missing spec field"))
          return errors
      if kind in REQUIRED_FIELDS:
          required = REQUIRED_FIELDS[kind].get("spec", [])
          for field in required:
              if field not in spec:
                  errors.append(
                      ValidationError(f"spec.{field}", f"Missing required field: {field}"))
      if kind == "Cluster":             errors.extend(_validate_cluster_spec(spec))
      elif kind == "Machine":           errors.extend(_validate_machine_spec(spec))
      elif kind == "MachineDeployment": errors.extend(_validate_machine_deployment_spec(spec))
      elif kind == "ClusterClass":      errors.extend(_validate_cluster_class_spec(spec))
      return errors
  \<close>
\<close>

fun validate_required_loop :: "json \<Rightarrow> string list \<Rightarrow> error + ValidationError list" where
  "validate_required_loop spec [] = Inr []"
| "validate_required_loop spec (f # rest) =
     bindE (py_in f spec) (\<lambda>present.
     bindE (validate_required_loop spec rest) (\<lambda>more.
       Inr ((if present then []
             else [mk_error (''spec.'' @ f) (''Missing required field: '' @ f)])
            @ more)))"

definition validate_spec :: "json \<Rightarrow> error + ValidationError list" where
  "validate_spec doc =
     bindE (py_get doc ''kind'' (JStr [])) (\<lambda>knd.
     bindE (py_get doc ''spec'' (JDict [])) (\<lambda>spec.
       if \<not> truthy spec then Inr [mk_error ''spec'' ''Missing spec field'']
       else
     bindE (table_lookup REQUIRED_FIELDS knd) (\<lambda>entry.
     bindE (case entry of None \<Rightarrow> Inr [] | Some required \<Rightarrow> validate_required_loop spec required)
       (\<lambda>missing.
     bindE (validate_kind_specific knd spec) (\<lambda>extra.
       Inr (missing @ extra))))))"




section \<open>Exit code and live analysis of migration\_checker.py\<close>














section \<open>Notions the properties are stated with\<close>

text \<open>
  A field is unset on a path when, walking mappings only, some key of the path is
  missing. (A path that runs into a value that is not a mapping is not unset: there the
  chained \<^verbatim>\<open>.get\<close> calls of the audit checks raise.)
\<close>

fun unset_path :: "json \<Rightarrow> string list \<Rightarrow> bool" where
  "unset_path v [] = False"
| "unset_path (JDict kvs) (k # ks) =
     (case map_of kvs k of None \<Rightarrow> True | Some v \<Rightarrow> unset_path v ks)"
| "unset_path _ (k # ks) = False"

text \<open>
  An example: the Cluster \<^verbatim>\<open>clusters/prod\<close> whose topology asks for \<open>n\<close> control
  plane replicas.
\<close>

definition cluster_of_replicas :: "int \<Rightarrow> json" where
  "cluster_of_replicas n =
     JDict [(''metadata'', JDict [(''name'', JStr ''prod''), (''namespace'', JStr ''clusters'')]),
            (''spec'', JDict [(''topology'',
               JDict [(''controlPlane'', JDict [(''replicas'', JInt n)])])])]"





text \<open>
  A Document as the data model has it: a mapping whose \<^verbatim>\<open>apiVersion\<close> and
  \<^verbatim>\<open>kind\<close>, when present, are strings, and whose \<^verbatim>\<open>metadata\<close> and \<^verbatim>\<open>spec\<close>,
  when present, are mappings. \<open>doc_kind\<close> is its kind (empty when it has none),
  \<open>doc_spec\<close> its spec (empty when it has none) and \<open>spec_keys\<close> the keys of the spec.
\<close>

fun string_or_absent :: "json option \<Rightarrow> bool" where
  "string_or_absent None = True"
| "string_or_absent (Some (JStr s)) = True"
| "string_or_absent (Some _) = False"

fun mapping_or_absent :: "json option \<Rightarrow> bool" where
  "mapping_or_absent None = True"
| "mapping_or_absent (Some (JDict kvs)) = True"
| "mapping_or_absent (Some _) = False"

definition is_document :: "json \<Rightarrow> bool" where
  "is_document doc =
     (case doc of
        JDict kvs \<Rightarrow>
          string_or_absent (map_of kvs ''apiVersion'') \<and> string_or_absent (map_of kvs ''kind'')
          \<and> mapping_or_absent (map_of kvs ''metadata'') \<and> mapping_or_absent (map_of kvs ''spec'')
      | _ \<Rightarrow> False)"

definition doc_kind :: "json \<Rightarrow> string" where
  "doc_kind doc =
     (case doc of
        JDict kvs \<Rightarrow> (case map_of kvs ''kind'' of Some (JStr k) \<Rightarrow> k | _ \<Rightarrow> [])
      | _ \<Rightarrow> [])"

definition doc_spec :: "json \<Rightarrow> json" where
  "doc_spec doc =
     (case doc of
        JDict kvs \<Rightarrow> (case map_of kvs ''spec'' of Some v \<Rightarrow> v | None \<Rightarrow> JDict [])
      | _ \<Rightarrow> JDict [])"

definition spec_keys :: "json \<Rightarrow> string list" where
  "spec_keys doc = (case doc_spec doc of JDict skvs \<Rightarrow> map fst skvs | _ \<Rightarrow> [])"

text \<open>The message of the lint finding for a missing required spec field.\<close>

definition lint_required_message :: "string \<Rightarrow> string \<Rightarrow> string" where
  "lint_required_message k f = ''Missing required spec field for '' @ k @ '': '' @ f"

text \<open>The exemption of lines 269 to 272 for topology-based clusters.\<close>

definition topology_exempt :: "string \<Rightarrow> string list \<Rightarrow> string \<Rightarrow> bool" where
  "topology_exempt k keys f =
     (k = ''Cluster'' \<and> ''topology'' \<in> set keys
      \<and> (f = ''infrastructureRef'' \<or> f = ''controlPlaneRef''))"

text \<open>The message of the validator's error for a missing required spec field.\<close>

definition validate_required_message :: "string \<Rightarrow> string" where
  "validate_required_message f = ''Missing required field: '' @ f"

text \<open>
  An example: a Machine manifest with \<^verbatim>\<open>clusterName\<close> and \<^verbatim>\<open>bootstrap\<close> and
  without \<^verbatim>\<open>infrastructureRef\<close>.
\<close>

definition machine_without_infra :: json where
  "machine_without_infra =
     JDict [(''apiVersion'', JStr ''cluster.x-k8s.io/v1beta1''), (''kind'', JStr ''Machine''),
            (''metadata'', JDict [(''name'', JStr ''m0''), (''namespace'', JStr ''clusters'')]),
            (''spec'', JDict [(''clusterName'', JStr ''prod''),
                              (''bootstrap'', JDict [(''dataSecretName'', JStr ''m0-boot'')])])]"

text \<open>
  Two more: a topology-based Cluster manifest without \<^verbatim>\<open>infrastructureRef\<close>, and a
  Cluster manifest whose spec is empty.
\<close>

definition topology_cluster :: json where
  "topology_cluster =
     JDict [(''apiVersion'', JStr ''cluster.x-k8s.io/v1beta1''), (''kind'', JStr ''Cluster''),
            (''metadata'', JDict [(''name'', JStr ''prod''), (''namespace'', JStr ''clusters'')]),
            (''spec'', JDict [(''topology'',
               JDict [(''class'', JStr ''quick-start''), (''version'', JStr ''v1.30.0'')])])]"

definition empty_spec_cluster :: json where
  "empty_spec_cluster =
     JDict [(''apiVersion'', JStr ''cluster.x-k8s.io/v1beta1''), (''kind'', JStr ''Cluster''),
            (''metadata'', JDict [(''name'', JStr ''prod''), (''namespace'', JStr ''clusters'')]),
            (''spec'', JDict [])]"



text \<open>
  An example: a Cluster manifest whose \<^verbatim>\<open>spec:\<close> key has no value, which the YAML
  parser loads as \<^verbatim>\<open>None\<close>.
\<close>

definition null_spec_cluster :: json where
  "null_spec_cluster =
     JDict [(''apiVersion'', JStr ''cluster.x-k8s.io/v1beta1''), (''kind'', JStr ''Cluster''),
            (''metadata'', JDict [(''name'', JStr ''prod''), (''namespace'', JStr ''clusters'')]),
            (''spec'', JNull)]"

text \<open>A value that is not a mapping: a scalar or a list.\<close>

fun non_mapping :: "json \<Rightarrow> bool" where
  "non_mapping (JDict kvs) = False"
| "non_mapping _ = True"

section \<open>Lemmas the properties share\<close>

lemma bindE_simps: "bindE (Inr x) f = f x" "bindE (Inl e) f = Inl e"
  by (simp_all add: bindE_def)

lemma bindE_InrE:
  assumes "bindE m f = Inr r"
  obtains x where "m = Inr x" and "f x = Inr r"
  using assms by (cases m) (auto simp: bindE_def)

lemma py_get_Inr:
  "py_get c k d = Inr v \<longleftrightarrow>
     (\<exists>kvs. c = JDict kvs \<and> v = (case map_of kvs k of None \<Rightarrow> d | Some w \<Rightarrow> w))"
  by (cases c) (auto split: option.splits)

lemma py_num_Some:
  "py_num v = Some n \<longleftrightarrow> v = JInt n \<or> (\<exists>b. v = JBool b \<and> n = (if b then 1 else 0))"
  by (cases v) auto

lemma py_str_small: "py_str (JInt 1) = ''1''" "py_str (JInt 2) = ''2''"
  by (simp_all add: py_str_def int_str_def digit_char_def nat_digits.simps)

lemma get_nested_keys_JNull: "get_nested_keys JNull ks = JNull"
  by (cases ks) simp_all

lemma get_nested_keys_spec_resolve:
  "get_nested_keys d ks = (case spec_resolve d ks of None \<Rightarrow> JNull | Some v \<Rightarrow> v)"
  by (induction d ks rule: get_nested_keys.induct)
     (simp_all add: get_nested_keys_JNull split: option.splits)

lemma spec_resolve_Cons:
  "spec_resolve d (k # ks) = Some v \<longleftrightarrow>
     (\<exists>kvs v'. d = JDict kvs \<and> map_of kvs k = Some v' \<and> spec_resolve v' ks = Some v)"
  by (cases d) (auto split: option.splits)

lemma unset_path_Cons:
  "unset_path d (k # ks) \<longleftrightarrow>
     (\<exists>kvs. d = JDict kvs
        \<and> (map_of kvs k = None \<or> (\<exists>v'. map_of kvs k = Some v' \<and> unset_path v' ks)))"
  by (cases d) (auto split: option.splits)

lemma in_keys_iff: "k \<in> fst ` set kvs \<longleftrightarrow> map_of kvs k \<noteq> None"
  by (simp add: map_of_eq_None_iff)

lemma string_or_absent_cases:
  assumes "string_or_absent v"
  obtains "v = None" | s where "v = Some (JStr s)"
  using assms by (cases v rule: string_or_absent.cases) auto

lemma mapping_or_absent_cases:
  assumes "mapping_or_absent v"
  obtains "v = None" | kvs where "v = Some (JDict kvs)"
  using assms by (cases v rule: mapping_or_absent.cases) auto

lemma is_documentE:
  assumes "is_document doc"
  obtains kvs where "doc = JDict kvs"
    and "string_or_absent (map_of kvs ''apiVersion'')" and "string_or_absent (map_of kvs ''kind'')"
    and "mapping_or_absent (map_of kvs ''metadata'')" and "mapping_or_absent (map_of kvs ''spec'')"
  using assms unfolding is_document_def by (cases doc) auto

lemma doc_get_kind:
  assumes "doc = JDict kvs" "string_or_absent (map_of kvs ''kind'')"
  shows "py_get doc ''kind'' (JStr []) = Inr (JStr (doc_kind doc))"
  using assms(2) unfolding assms(1) doc_kind_def
  by (cases rule: string_or_absent_cases) auto

lemma doc_get_spec:
  assumes "doc = JDict kvs" "mapping_or_absent (map_of kvs ''spec'')"
  shows "py_get doc ''spec'' (JDict []) = Inr (doc_spec doc)"
    and "\<exists>skvs. doc_spec doc = JDict skvs \<and> spec_keys doc = map fst skvs"
  using assms(2) unfolding assms(1) doc_spec_def spec_keys_def
  by (cases rule: mapping_or_absent_cases; auto)+

lemmas lint_eval =
  lint_document_def lint_top_level_def lint_api_version_def lint_required_spec_def
  lint_required_field_def lint_deprecated_def bindE_simps CAPI_API_VERSIONS_def CAPI_KINDS_def
  LINT_DEPRECATED_FIELDS_def lint_issue_def py_str_def

lemmas validate_eval =
  validate_spec_def validate_kind_specific_def validate_cluster_spec_def
  validate_machine_spec_def validate_machine_deployment_spec_def validate_cluster_class_spec_def
  REQUIRED_FIELDS_def mk_error_def bindE_simps

lemmas analyze_eval =
  analyze_document_def check_api_version_def check_deprecated_fields_def
  check_object_references_def check_duration_fields_def bindE_simps mk_issue_def
  DEPRECATED_FIELDS_def OBJECT_REF_FIELDS_def duration_fields_def object_ref_issues_def
  duration_issues_def get_nested_def

section \<open>Field resolution: properties\<close>

text \<open>
  C1 (as amended). \<^verbatim>\<open>get_nested\<close> has one marker, \<^verbatim>\<open>None\<close>, for a value it does
  not find, and a stored null is the same \<^verbatim>\<open>None\<close>. So for every document and every
  dot-separated path, resolution yields \<^verbatim>\<open>None\<close> exactly when a key of the path is
  missing (or the path runs into a non-mapping) or the stored value is null; when every
  key is present it yields the stored value, so a stored false, 0 or empty string stays
  distinct from absent. Resolving \<^verbatim>\<open>status.ready\<close> against
  \<^verbatim>\<open>{"status": {"ready": false}}\<close> yields false, not \<^verbatim>\<open>None\<close>.
\<close>

theorem get_nested_resolution:
  "(get_nested d p = JNull \<longleftrightarrow>
      spec_resolve d (py_split p) = None \<or> spec_resolve d (py_split p) = Some JNull)
   \<and> (\<forall>v. spec_resolve d (py_split p) = Some v \<longrightarrow> get_nested d p = v)
   \<and> get_nested (JDict [(''status'', JDict [(''ready'', JBool False)])]) ''status.ready''
       = JBool False"
proof -
  have "get_nested d p = (case spec_resolve d (py_split p) of None \<Rightarrow> JNull | Some v \<Rightarrow> v)"
    unfolding get_nested_def by (rule get_nested_keys_spec_resolve)
  moreover
  have "get_nested (JDict [(''status'', JDict [(''ready'', JBool False)])]) ''status.ready''
       = JBool False"
    by (simp add: get_nested_def)
  ultimately show ?thesis
    by (auto split: option.splits)
qed

theorem get_nested_resolution_witness:
  "spec_resolve (JDict [(''spec'', JDict [(''replicas'', JInt 0)])]) (py_split ''spec.replicas'')
     = Some (JInt 0)
   \<and> get_nested (JDict [(''spec'', JDict [(''replicas'', JInt 0)])]) ''spec.replicas'' = JInt 0
   \<and> get_nested (JDict [(''spec'', JDict [(''replicas'', JInt 0)])]) ''spec.replicas'' \<noteq> JNull"
  using get_nested_resolution
    [of "JDict [(''spec'', JDict [(''replicas'', JInt 0)])]" "''spec.replicas''"]
  by simp

text \<open>
  The claim as stated fails on a stored null: in the first document every key of
  \<^verbatim>\<open>spec.topology.rolloutAfter\<close> is present and the stored value is null, in the
  second the last key is missing, and \<^verbatim>\<open>get_nested\<close> answers \<^verbatim>\<open>None\<close> for both.
\<close>

theorem get_nested_null_counterexample:
  "spec_resolve
     (JDict [(''kind'', JStr ''Cluster''),
             (''spec'', JDict [(''topology'', JDict [(''rolloutAfter'', JNull)])])])
     (py_split ''spec.topology.rolloutAfter'') = Some JNull
   \<and> get_nested
     (JDict [(''kind'', JStr ''Cluster''),
             (''spec'', JDict [(''topology'', JDict [(''rolloutAfter'', JNull)])])])
     ''spec.topology.rolloutAfter'' = JNull
   \<and> spec_resolve
     (JDict [(''kind'', JStr ''Cluster''), (''spec'', JDict [(''topology'', JDict [])])])
     (py_split ''spec.topology.rolloutAfter'') = None
   \<and> get_nested
     (JDict [(''kind'', JStr ''Cluster''), (''spec'', JDict [(''topology'', JDict [])])])
     ''spec.topology.rolloutAfter'' = JNull"
  by (simp add: get_nested_def)

section \<open>Deprecated fields: properties\<close>

text \<open>
  C5 (as amended). For every Cluster document, \<^verbatim>\<open>check_deprecated_fields\<close> returns
  exactly one issue naming \<^verbatim>\<open>spec.topology.rolloutAfter\<close>, of severity warning and
  with the action "Remove this field", when the field is present with a value other
  than null; it returns no issue for that field when the field is missing or null.
\<close>

theorem check_deprecated_rolloutAfter:
  assumes "map_of kvs ''kind'' = Some (JStr ''Cluster'')"
  shows "\<exists>found. check_deprecated_fields (JDict kvs) fp = Inr found
    \<and> filter (\<lambda>i. field i = ''spec.topology.rolloutAfter'') found =
       (if spec_resolve (JDict kvs) [''spec'', ''topology'', ''rolloutAfter''] = None
           \<or> spec_resolve (JDict kvs) [''spec'', ''topology'', ''rolloutAfter''] = Some JNull
        then []
        else [\<lparr>path = fp, field = ''spec.topology.rolloutAfter'',
                reason = ''Never implemented, removed in v1beta2'',
                action = ''Remove this field'', mi_severity = ''warning''\<rparr>])"
proof -
  have sp: "py_split ''spec.topology.rolloutAfter'' = [''spec'', ''topology'', ''rolloutAfter'']"
    by simp
  have gn: "(get_nested (JDict kvs) ''spec.topology.rolloutAfter'' = JNull) \<longleftrightarrow>
     (spec_resolve (JDict kvs) [''spec'', ''topology'', ''rolloutAfter''] = None
        \<or> spec_resolve (JDict kvs) [''spec'', ''topology'', ''rolloutAfter''] = Some JNull)"
    unfolding get_nested_def sp get_nested_keys_spec_resolve
    by (simp split: option.splits)
  show ?thesis
    using assms gn
    by (simp add: check_deprecated_fields_def bindE_def DEPRECATED_FIELDS_def mk_issue_def)
qed

theorem check_deprecated_rolloutAfter_witness:
  "check_deprecated_fields
     (JDict [(''kind'', JStr ''Cluster''),
             (''spec'', JDict [(''topology'', JDict [(''rolloutAfter'', JStr ''2024-01-01'')])])])
     ''cluster.yaml''
   = Inr [\<lparr>path = ''cluster.yaml'', field = ''spec.topology.rolloutAfter'',
           reason = ''Never implemented, removed in v1beta2'',
           action = ''Remove this field'', mi_severity = ''warning''\<rparr>]
   \<and> check_deprecated_fields
     (JDict [(''kind'', JStr ''Cluster''), (''spec'', JDict [(''topology'', JDict [])])])
     ''cluster.yaml'' = Inr []"
  using check_deprecated_rolloutAfter
    [of "[(''kind'', JStr ''Cluster''),
          (''spec'', JDict [(''topology'', JDict [(''rolloutAfter'', JStr ''2024-01-01'')])])]"
        "''cluster.yaml''"]
  by (simp add: check_deprecated_fields_def bindE_def DEPRECATED_FIELDS_def mk_issue_def
        get_nested_def)

text \<open>
  The claim as stated fails when the field is present and null: the field resolves
  (to null), and the check returns no issue.
\<close>

theorem check_deprecated_null_counterexample:
  "spec_resolve
     (JDict [(''kind'', JStr ''Cluster''),
             (''spec'', JDict [(''topology'', JDict [(''rolloutAfter'', JNull)])])])
     [''spec'', ''topology'', ''rolloutAfter''] = Some JNull
   \<and> check_deprecated_fields
     (JDict [(''kind'', JStr ''Cluster''),
             (''spec'', JDict [(''topology'', JDict [(''rolloutAfter'', JNull)])])])
     ''cluster.yaml'' = Inr []"
  by (simp add: check_deprecated_fields_def bindE_def DEPRECATED_FIELDS_def get_nested_def)

section \<open>Replica counts: properties\<close>

lemma replicas_set:
  assumes "spec_resolve cluster [''spec'', ''topology'', ''controlPlane'', ''replicas''] = Some v"
  shows "bindE (py_get cluster ''spec'' (JDict [])) (\<lambda>spec.
     bindE (py_get spec ''topology'' (JDict [])) (\<lambda>topology.
     bindE (py_get topology ''controlPlane'' (JDict [])) (\<lambda>cp.
     bindE (py_get cp ''replicas'' (JInt 1)) f))) = f v"
  using assms by (auto simp: spec_resolve_Cons bindE_def)

lemma replicas_unset:
  assumes "unset_path cluster [''spec'', ''topology'', ''controlPlane'', ''replicas'']"
  shows "bindE (py_get cluster ''spec'' (JDict [])) (\<lambda>spec.
     bindE (py_get spec ''topology'' (JDict [])) (\<lambda>topology.
     bindE (py_get topology ''controlPlane'' (JDict [])) (\<lambda>cp.
     bindE (py_get cp ''replicas'' (JInt 1)) f))) = f (JInt 1)"
  using assms by (auto simp: unset_path_Cons bindE_def)


text \<open>
  C3. For a Cluster document with \<^verbatim>\<open>spec.topology.controlPlane.replicas = n\<close> (and
  metadata from which the resource label is built), the replica check adds: for
  \<open>n = 1\<close> exactly one finding, of severity medium, recommending 3 replicas for HA;
  for \<open>n = 2\<close> a low below-3 finding and a low even-replica finding; for
  \<open>n = 3\<close> nothing.
\<close>

theorem check_replicas_1_2_3:
  assumes "spec_resolve cluster [''spec'', ''topology'', ''controlPlane'', ''replicas''] = Some (JInt n)"
    and "resource_label ''Cluster'' cluster = Inr res"
  shows "(n = 1 \<longrightarrow> check_replicas cluster report =
            Inr (report\<lparr>findings := findings report @
              [\<lparr>severity = ''medium'', category = ''Availability'', resource = res,
                message = ''Control plane has 1 replica(s) (recommend 3 for HA)'',
                recommendation = ''Use 3 control plane replicas for production HA''\<rparr>]\<rparr>))
       \<and> (n = 2 \<longrightarrow> check_replicas cluster report =
            Inr (report\<lparr>findings := findings report @
              [\<lparr>severity = ''low'', category = ''Availability'', resource = res,
                message = ''Control plane has 2 replica(s) (recommend 3 for HA)'',
                recommendation = ''Use 3 control plane replicas for production HA''\<rparr>,
               \<lparr>severity = ''low'', category = ''Availability'', resource = res,
                message = ''Control plane has even number of replicas (2)'',
                recommendation = ''Use odd number of replicas for proper etcd quorum''\<rparr>]\<rparr>))
       \<and> (n = 3 \<longrightarrow> check_replicas cluster report = Inr report)"
  unfolding check_replicas_def assms(2) replicas_set[OF assms(1)]
  by (simp add: bindE_def add_def py_str_small)

theorem check_replicas_1_2_3_witness:
  "check_replicas (cluster_of_replicas 1) \<lparr>cluster_name = ''clusters/prod'', findings = []\<rparr> =
     Inr \<lparr>cluster_name = ''clusters/prod'', findings =
              [\<lparr>severity = ''medium'', category = ''Availability'', resource = ''Cluster/clusters/prod'',
                message = ''Control plane has 1 replica(s) (recommend 3 for HA)'',
                recommendation = ''Use 3 control plane replicas for production HA''\<rparr>]\<rparr>
   \<and> check_replicas (cluster_of_replicas 2) \<lparr>cluster_name = ''clusters/prod'', findings = []\<rparr> =
     Inr \<lparr>cluster_name = ''clusters/prod'', findings =
              [\<lparr>severity = ''low'', category = ''Availability'', resource = ''Cluster/clusters/prod'',
                message = ''Control plane has 2 replica(s) (recommend 3 for HA)'',
                recommendation = ''Use 3 control plane replicas for production HA''\<rparr>,
               \<lparr>severity = ''low'', category = ''Availability'', resource = ''Cluster/clusters/prod'',
                message = ''Control plane has even number of replicas (2)'',
                recommendation = ''Use odd number of replicas for proper etcd quorum''\<rparr>]\<rparr>
   \<and> check_replicas (cluster_of_replicas 3) \<lparr>cluster_name = ''clusters/prod'', findings = []\<rparr> =
     Inr \<lparr>cluster_name = ''clusters/prod'', findings = []\<rparr>"
proof -
  have r: "resource_label ''Cluster'' (cluster_of_replicas n) = Inr ''Cluster/clusters/prod''" for n
    by (simp add: resource_label_def cluster_of_replicas_def bindE_def py_str_def)
  have s: "spec_resolve (cluster_of_replicas n) [''spec'', ''topology'', ''controlPlane'', ''replicas'']
       = Some (JInt n)" for n
    by (simp add: cluster_of_replicas_def)
  show ?thesis
    using check_replicas_1_2_3 [OF s r, of 1 "\<lparr>cluster_name = ''clusters/prod'', findings = []\<rparr>"]
          check_replicas_1_2_3 [OF s r, of 2 "\<lparr>cluster_name = ''clusters/prod'', findings = []\<rparr>"]
          check_replicas_1_2_3 [OF s r, of 3 "\<lparr>cluster_name = ''clusters/prod'', findings = []\<rparr>"]
    by simp
qed

lemma check_replicas_none:
  assumes "check_replicas cluster report = Inr report'" and "findings report' = findings report"
  shows "\<exists>n. spec_resolve cluster [''spec'', ''topology'', ''controlPlane'', ''replicas''] = Some (JInt n)
      \<and> 3 \<le> n \<and> odd n"
proof -
  from assms(1) obtain res spec topology cp cp_replicas where
    g: "py_get cluster ''spec'' (JDict []) = Inr spec"
       "py_get spec ''topology'' (JDict []) = Inr topology"
       "py_get topology ''controlPlane'' (JDict []) = Inr cp"
       "py_get cp ''replicas'' (JInt 1) = Inr cp_replicas"
    and c: "(case py_num cp_replicas of
         None \<Rightarrow> Inl TypeError
       | Some n \<Rightarrow>
           let r1 =
             (if n < 3
              then add report (if n = 1 then ''medium'' else ''low'') ''Availability'' res
                     (''Control plane has '' @ py_str cp_replicas
                        @ '' replica(s) (recommend 3 for HA)'')
                     ''Use 3 control plane replicas for production HA''
              else report)
           in Inr (if n mod 2 = 0
                   then add r1 ''low'' ''Availability'' res
                          (''Control plane has even number of replicas (''
                             @ py_str cp_replicas @ '')'')
                          ''Use odd number of replicas for proper etcd quorum''
                   else r1)) = Inr report'"
    unfolding check_replicas_def by (elim bindE_InrE) blast
  from c obtain n where n: "py_num cp_replicas = Some n"
    by (cases "py_num cp_replicas") auto
  have n3: "3 \<le> n"
  proof (rule ccontr)
    assume "\<not> 3 \<le> n"
    with c n have "length (findings report') > length (findings report)"
      by (auto simp: add_def Let_def split: if_splits)
    with assms(2) show False by simp
  qed
  have odd: "n mod 2 \<noteq> 0"
  proof
    assume "n mod 2 = 0"
    with c n have "length (findings report') > length (findings report)"
      by (auto simp: add_def Let_def split: if_splits)
    with assms(2) show False by simp
  qed
  from n n3 have v: "cp_replicas = JInt n"
    by (auto simp: py_num_Some split: if_splits)
  from g(1) obtain kvs0 where k0: "cluster = JDict kvs0"
    and s0: "spec = (case map_of kvs0 ''spec'' of None \<Rightarrow> JDict [] | Some w \<Rightarrow> w)"
    by (auto simp: py_get_Inr)
  from g(2) obtain kvs1 where k1: "spec = JDict kvs1"
    and s1: "topology = (case map_of kvs1 ''topology'' of None \<Rightarrow> JDict [] | Some w \<Rightarrow> w)"
    by (auto simp: py_get_Inr)
  from g(3) obtain kvs2 where k2: "topology = JDict kvs2"
    and s2: "cp = (case map_of kvs2 ''controlPlane'' of None \<Rightarrow> JDict [] | Some w \<Rightarrow> w)"
    by (auto simp: py_get_Inr)
  from g(4) obtain kvs3 where k3: "cp = JDict kvs3"
    and s3: "cp_replicas = (case map_of kvs3 ''replicas'' of None \<Rightarrow> JInt 1 | Some w \<Rightarrow> w)"
    by (auto simp: py_get_Inr)
  from s3 v n3 have m3: "map_of kvs3 ''replicas'' = Some (JInt n)"
    by (auto split: option.splits)
  from s2 k3 m3 have m2: "map_of kvs2 ''controlPlane'' = Some (JDict kvs3)"
    by (auto split: option.splits)
  from s1 k2 m2 have m1: "map_of kvs1 ''topology'' = Some (JDict kvs2)"
    by (auto split: option.splits)
  from s0 k1 m1 have m0: "map_of kvs0 ''spec'' = Some (JDict kvs1)"
    by (auto split: option.splits)
  from k0 m0 m1 m2 m3
  have "spec_resolve cluster [''spec'', ''topology'', ''controlPlane'', ''replicas''] = Some (JInt n)"
    by simp
  with n3 odd show ?thesis by (auto simp: odd_iff_mod_2_eq_one)
qed

text \<open>
  C10. When \<^verbatim>\<open>spec.topology.controlPlane.replicas\<close> is unset (the key, or
  \<^verbatim>\<open>controlPlane\<close>, \<^verbatim>\<open>topology\<close> or \<^verbatim>\<open>spec\<close> above it, is missing), the
  replica check counts 1 replica: it adds exactly one finding, of severity medium and
  category Availability, and no even-replica finding. And whenever the check adds no
  finding, the replica count is set explicitly, to an odd integer of at least 3.
\<close>

theorem check_replicas_default:
  "(unset_path cluster [''spec'', ''topology'', ''controlPlane'', ''replicas'']
      \<and> resource_label ''Cluster'' cluster = Inr res \<longrightarrow>
      check_replicas cluster report =
        Inr (report\<lparr>findings := findings report @
              [\<lparr>severity = ''medium'', category = ''Availability'', resource = res,
                message = ''Control plane has 1 replica(s) (recommend 3 for HA)'',
                recommendation = ''Use 3 control plane replicas for production HA''\<rparr>]\<rparr>))
   \<and> (check_replicas cluster report = Inr report' \<and> findings report' = findings report \<longrightarrow>
        (\<exists>n. spec_resolve cluster [''spec'', ''topology'', ''controlPlane'', ''replicas'']
                = Some (JInt n) \<and> 3 \<le> n \<and> odd n))"
proof (intro conjI impI)
  assume a: "unset_path cluster [''spec'', ''topology'', ''controlPlane'', ''replicas'']
      \<and> resource_label ''Cluster'' cluster = Inr res"
  then have u: "unset_path cluster [''spec'', ''topology'', ''controlPlane'', ''replicas'']"
    and r: "resource_label ''Cluster'' cluster = Inr res" by simp_all
  show "check_replicas cluster report =
        Inr (report\<lparr>findings := findings report @
              [\<lparr>severity = ''medium'', category = ''Availability'', resource = res,
                message = ''Control plane has 1 replica(s) (recommend 3 for HA)'',
                recommendation = ''Use 3 control plane replicas for production HA''\<rparr>]\<rparr>)"
    unfolding check_replicas_def r replicas_unset[OF u]
    by (simp add: bindE_def add_def py_str_small)
next
  assume "check_replicas cluster report = Inr report' \<and> findings report' = findings report"
  then show "\<exists>n. spec_resolve cluster [''spec'', ''topology'', ''controlPlane'', ''replicas'']
                = Some (JInt n) \<and> 3 \<le> n \<and> odd n"
    using check_replicas_none by blast
qed

theorem check_replicas_default_witness:
  "unset_path (JDict [(''metadata'', JDict [(''name'', JStr ''dev'')]), (''spec'', JDict [])])
     [''spec'', ''topology'', ''controlPlane'', ''replicas'']
   \<and> check_replicas (JDict [(''metadata'', JDict [(''name'', JStr ''dev'')]), (''spec'', JDict [])])
       \<lparr>cluster_name = ''default/dev'', findings = []\<rparr> =
     Inr \<lparr>cluster_name = ''default/dev'', findings =
              [\<lparr>severity = ''medium'', category = ''Availability'', resource = ''Cluster/default/dev'',
                message = ''Control plane has 1 replica(s) (recommend 3 for HA)'',
                recommendation = ''Use 3 control plane replicas for production HA''\<rparr>]\<rparr>
   \<and> check_replicas (cluster_of_replicas 5) \<lparr>cluster_name = ''clusters/prod'', findings = []\<rparr> =
     Inr \<lparr>cluster_name = ''clusters/prod'', findings = []\<rparr>
   \<and> spec_resolve (cluster_of_replicas 5) [''spec'', ''topology'', ''controlPlane'', ''replicas'']
       = Some (JInt 5)"
proof -
  have c5: "check_replicas (cluster_of_replicas 5) \<lparr>cluster_name = ''clusters/prod'', findings = []\<rparr> =
     Inr \<lparr>cluster_name = ''clusters/prod'', findings = []\<rparr>"
    by (simp add: check_replicas_def resource_label_def cluster_of_replicas_def bindE_def py_str_def)
  show ?thesis
    using check_replicas_default
        [of "JDict [(''metadata'', JDict [(''name'', JStr ''dev'')]), (''spec'', JDict [])]"
            "''Cluster/default/dev''" "\<lparr>cluster_name = ''default/dev'', findings = []\<rparr>"]
      check_replicas_default
        [of "cluster_of_replicas 5" _ "\<lparr>cluster_name = ''clusters/prod'', findings = []\<rparr>"
            "\<lparr>cluster_name = ''clusters/prod'', findings = []\<rparr>"]
      c5
    by (simp add: resource_label_def bindE_def py_str_def cluster_of_replicas_def)
qed

section \<open>Report counts: properties\<close>

lemma length_filter_disj3:
  assumes "\<And>x. \<not> (P x \<and> Q x)" "\<And>x. \<not> (P x \<and> R x)" "\<And>x. \<not> (Q x \<and> R x)"
  shows "length (filter P xs) + length (filter Q xs) + length (filter R xs)
       = length (filter (\<lambda>x. P x \<or> Q x \<or> R x) xs)"
  using assms by (induction xs) auto

text \<open>
  C2 (as amended). At every point of a report's life each count it exposes is the number
  of its findings of that severity: the counts are recomputed from the list, and
  appending a finding raises the count of its own severity by one and no other. No
  finding is counted twice. An AuditReport's high, medium and low counts add up to the
  number of its findings of these three severities; a finding of another severity (the
  checks emit info findings) is in none of them. A ContractReport's error count is the
  number of its error violations; it starts at 0 and the report is compliant exactly
  when no violation is an error.
\<close>

theorem report_counts:
  "high_count r + medium_count r + low_count r =
     length (filter (\<lambda>f. severity f = ''high'' \<or> severity f = ''medium'' \<or> severity f = ''low'')
               (findings r))
   \<and> length (findings (add r sev cat res msg rec)) = length (findings r) + 1
   \<and> high_count (add r sev cat res msg rec) = high_count r + (if sev = ''high'' then 1 else 0)
   \<and> medium_count (add r sev cat res msg rec) = medium_count r + (if sev = ''medium'' then 1 else 0)
   \<and> low_count (add r sev cat res msg rec) = low_count r + (if sev = ''low'' then 1 else 0)
   \<and> error_count (add_violation c sev cat nm msg req) =
       error_count c + (if sev = ''error'' then 1 else 0)
   \<and> error_count (c\<lparr>violations := []\<rparr>) = 0
   \<and> error_count c + length (filter (\<lambda>v. v_severity v \<noteq> ''error'') (violations c))
       = length (violations c)
   \<and> is_compliant c = list_all (\<lambda>v. v_severity v \<noteq> ''error'') (violations c)"
proof -
  have 1: "high_count r + medium_count r + low_count r =
     length (filter (\<lambda>f. severity f = ''high'' \<or> severity f = ''medium'' \<or> severity f = ''low'')
               (findings r))"
    unfolding high_count_def medium_count_def low_count_def
    by (rule length_filter_disj3) auto
  have 2: "error_count c + length (filter (\<lambda>v. v_severity v \<noteq> ''error'') (violations c))
       = length (violations c)"
    unfolding error_count_def by (rule sum_length_filter_compl)
  have 3: "is_compliant c = list_all (\<lambda>v. v_severity v \<noteq> ''error'') (violations c)"
    unfolding is_compliant_def error_count_def
    by (induction "violations c" arbitrary: c) (auto simp: list_all_iff filter_empty_conv)
  show ?thesis
    using 1 2 3
    by (simp add: add_def add_violation_def high_count_def medium_count_def low_count_def
          error_count_def)
qed

text \<open>
  The claim as stated fails on an AuditReport with info findings: the network check
  run on a Cluster without \<^verbatim>\<open>clusterNetwork\<close> and without topology variables adds
  two findings, and the three counts add up to 0.
\<close>

theorem audit_counts_counterexample:
  "check_network_security (cluster_of_replicas 3)
       \<lparr>cluster_name = ''clusters/prod'', findings = []\<rparr> =
     Inr \<lparr>cluster_name = ''clusters/prod'', findings =
            [\<lparr>severity = ''info'', category = ''Network'', resource = ''Cluster/clusters/prod'',
              message = ''No explicit clusterNetwork configuration'',
              recommendation = ''Define clusterNetwork with appropriate CIDR ranges''\<rparr>,
             \<lparr>severity = ''info'', category = ''Network'', resource = ''Cluster/clusters/prod'',
              message = ''CNI configuration not found in cluster variables'',
              recommendation = ''Ensure CNI plugin is configured (calico, cilium, etc.)''\<rparr>]\<rparr>
   \<and> high_count \<lparr>cluster_name = ''clusters/prod'', findings =
            [\<lparr>severity = ''info'', category = ''Network'', resource = ''Cluster/clusters/prod'',
              message = ''No explicit clusterNetwork configuration'',
              recommendation = ''Define clusterNetwork with appropriate CIDR ranges''\<rparr>,
             \<lparr>severity = ''info'', category = ''Network'', resource = ''Cluster/clusters/prod'',
              message = ''CNI configuration not found in cluster variables'',
              recommendation = ''Ensure CNI plugin is configured (calico, cilium, etc.)''\<rparr>]\<rparr>
     + medium_count \<lparr>cluster_name = ''clusters/prod'', findings =
            [\<lparr>severity = ''info'', category = ''Network'', resource = ''Cluster/clusters/prod'',
              message = ''No explicit clusterNetwork configuration'',
              recommendation = ''Define clusterNetwork with appropriate CIDR ranges''\<rparr>,
             \<lparr>severity = ''info'', category = ''Network'', resource = ''Cluster/clusters/prod'',
              message = ''CNI configuration not found in cluster variables'',
              recommendation = ''Ensure CNI plugin is configured (calico, cilium, etc.)''\<rparr>]\<rparr>
     + low_count \<lparr>cluster_name = ''clusters/prod'', findings =
            [\<lparr>severity = ''info'', category = ''Network'', resource = ''Cluster/clusters/prod'',
              message = ''No explicit clusterNetwork configuration'',
              recommendation = ''Define clusterNetwork with appropriate CIDR ranges''\<rparr>,
             \<lparr>severity = ''info'', category = ''Network'', resource = ''Cluster/clusters/prod'',
              message = ''CNI configuration not found in cluster variables'',
              recommendation = ''Ensure CNI plugin is configured (calico, cilium, etc.)''\<rparr>]\<rparr>
     = 0"
  by (simp add: check_network_security_def resource_label_def cluster_of_replicas_def bindE_def
        py_str_def add_def high_count_def medium_count_def low_count_def)

section \<open>Exit codes: properties\<close>






section \<open>Provider contract: properties\<close>










section \<open>Required fields: properties\<close>

lemma lint_top_level_other:
  assumes "is_document doc"
  shows "\<exists>i1. lint_top_level doc fp ln = Inr i1
     \<and> filter (\<lambda>i. li_message i = lint_required_message k f) i1 = []"
proof -
  from assms obtain kvs where d: "doc = JDict kvs"
    and m: "mapping_or_absent (map_of kvs ''metadata'')"
    by (rule is_documentE)
  from m show ?thesis
  proof (cases rule: mapping_or_absent_cases)
    case 1
    then have "''metadata'' \<notin> fst ` set kvs" by (simp add: in_keys_iff)
    then show ?thesis
      unfolding d lint_top_level_def
      by (simp add: bindE_simps lint_issue_def lint_required_message_def)
  next
    case (2 mkvs)
    then have "''metadata'' \<in> fst ` set kvs" by (simp add: in_keys_iff)
    then show ?thesis
      unfolding d lint_top_level_def using 2
      by (simp add: bindE_simps lint_issue_def lint_required_message_def)
  qed
qed

lemma lint_api_version_other:
  assumes "is_document doc"
  shows "\<exists>i2. lint_api_version doc fp ln = Inr i2
     \<and> filter (\<lambda>i. li_message i = lint_required_message k f) i2 = []"
proof -
  from assms obtain kvs where d: "doc = JDict kvs"
    and a: "string_or_absent (map_of kvs ''apiVersion'')"
    by (rule is_documentE)
  from a show ?thesis
  proof (cases rule: string_or_absent_cases)
    case 1
    then show ?thesis
      unfolding d lint_api_version_def
      by (simp add: bindE_simps CAPI_API_VERSIONS_def)
  next
    case (2 s)
    then show ?thesis
      unfolding d lint_api_version_def
      by (simp add: bindE_simps CAPI_API_VERSIONS_def lint_issue_def lint_required_message_def)
  qed
qed

lemma lint_deprecated_loop_other:
  "filter (\<lambda>i. li_message i = lint_required_message k f)
     (lint_deprecated_loop doc fp ln entries) = []"
  by (induction entries) (auto simp: lint_issue_def lint_required_message_def)

lemma lint_deprecated_other:
  "\<exists>i4. lint_deprecated doc (JStr k') fp ln = Inr i4
     \<and> filter (\<lambda>i. li_message i = lint_required_message k f) i4 = []"
  unfolding lint_deprecated_def
  by (cases "map_of LINT_DEPRECATED_FIELDS k'")
     (simp_all add: bindE_simps lint_deprecated_loop_other)

lemma li_message_lint_issue: "li_message (lint_issue sev m fp ln sg) = m"
  by (simp add: lint_issue_def)

lemma lint_required_message_inj:
  "lint_required_message k f = lint_required_message k g \<longleftrightarrow> f = g"
  by (simp add: lint_required_message_def)

lemma lint_required_field_dict:
  "lint_required_field k (JDict skvs) fp ln f =
     Inr (if f \<in> set (map fst skvs) \<or> topology_exempt k (map fst skvs) f then []
          else [lint_issue ERROR (lint_required_message k f) fp ln None])"
  unfolding lint_required_field_def topology_exempt_def lint_required_message_def
  by (auto simp: bindE_simps)

lemma lint_required_loop_filter:
  assumes "distinct required"
  shows "\<exists>found. lint_required_loop k (JDict skvs) fp ln required = Inr found
     \<and> filter (\<lambda>i. li_message i = lint_required_message k f) found =
        (if f \<in> set required \<and> f \<notin> set (map fst skvs) \<and> \<not> topology_exempt k (map fst skvs) f
         then [lint_issue ERROR (lint_required_message k f) fp ln None]
         else [])"
  using assms
proof (induction required)
  case Nil
  then show ?case by simp
next
  case (Cons g required)
  then obtain found where
    f: "lint_required_loop k (JDict skvs) fp ln required = Inr found"
    and ff: "filter (\<lambda>i. li_message i = lint_required_message k f) found =
        (if f \<in> set required \<and> f \<notin> set (map fst skvs) \<and> \<not> topology_exempt k (map fst skvs) f
         then [lint_issue ERROR (lint_required_message k f) fp ln None]
         else [])"
    by auto
  from Cons.prems have g: "g \<notin> set required" by simp
  show ?case
    using g
    by (auto simp: f ff bindE_simps lint_required_field_dict li_message_lint_issue
          lint_required_message_inj)
qed

lemma CAPI_KINDS_distinct:
  assumes "map_of CAPI_KINDS k = Some required"
  shows "distinct required"
  using assms unfolding CAPI_KINDS_def by (auto split: if_splits)

lemma lint_document_required:
  assumes "is_document doc" and "map_of CAPI_KINDS (doc_kind doc) = Some required"
  shows "\<exists>found. lint_document doc fp ln = Inr found
     \<and> filter (\<lambda>i. li_message i = lint_required_message (doc_kind doc) f) found =
        (if f \<in> set required \<and> f \<notin> set (spec_keys doc)
            \<and> \<not> topology_exempt (doc_kind doc) (spec_keys doc) f
         then [lint_issue ERROR (lint_required_message (doc_kind doc) f) fp ln None]
         else [])"
proof -
  from assms(1) obtain kvs where d: "doc = JDict kvs"
    and k: "string_or_absent (map_of kvs ''kind'')"
    and s: "mapping_or_absent (map_of kvs ''spec'')"
    by (rule is_documentE)
  obtain i1 where i1: "lint_top_level doc fp ln = Inr i1"
    "filter (\<lambda>i. li_message i = lint_required_message (doc_kind doc) f) i1 = []"
    using lint_top_level_other[OF assms(1)] by blast
  obtain i2 where i2: "lint_api_version doc fp ln = Inr i2"
    "filter (\<lambda>i. li_message i = lint_required_message (doc_kind doc) f) i2 = []"
    using lint_api_version_other[OF assms(1)] by blast
  obtain i4 where i4: "lint_deprecated doc (JStr (doc_kind doc)) fp ln = Inr i4"
    "filter (\<lambda>i. li_message i = lint_required_message (doc_kind doc) f) i4 = []"
    using lint_deprecated_other by blast
  from doc_get_spec[OF d s] obtain skvs where
    gs: "py_get doc ''spec'' (JDict []) = Inr (JDict skvs)" and sk: "spec_keys doc = map fst skvs"
    by auto
  obtain i3 where i3: "lint_required_loop (doc_kind doc) (JDict skvs) fp ln required = Inr i3"
    "filter (\<lambda>i. li_message i = lint_required_message (doc_kind doc) f) i3 =
        (if f \<in> set required \<and> f \<notin> set (map fst skvs)
            \<and> \<not> topology_exempt (doc_kind doc) (map fst skvs) f
         then [lint_issue ERROR (lint_required_message (doc_kind doc) f) fp ln None]
         else [])"
    using lint_required_loop_filter[OF CAPI_KINDS_distinct[OF assms(2)]] by blast
  have r: "lint_required_spec doc (JStr (doc_kind doc)) fp ln = Inr i3"
    unfolding lint_required_spec_def
    by (simp add: assms(2) bindE_simps gs py_str_def i3(1))
  have "lint_document doc fp ln = Inr (i1 @ i2 @ i3 @ i4)"
    unfolding lint_document_def
    by (simp add: i1(1) i2(1) doc_get_kind[OF d k] r i4(1) bindE_simps)
  then show ?thesis
    using i1(2) i2(2) i3(2) i4(2) sk by simp
qed

lemma ve_message_mk_error: "ve_message (mk_error p m) = m"
  by (simp add: mk_error_def)

lemma validate_required_message_inj:
  "validate_required_message f = validate_required_message g \<longleftrightarrow> f = g"
  by (simp add: validate_required_message_def)

lemma validate_required_loop_filter:
  assumes "distinct required"
  shows "\<exists>found. validate_required_loop (JDict skvs) required = Inr found
     \<and> filter (\<lambda>e. ve_message e = validate_required_message f) found =
        (if f \<in> set required \<and> f \<notin> set (map fst skvs)
         then [mk_error (''spec.'' @ f) (validate_required_message f)]
         else [])"
  using assms
proof (induction required)
  case Nil
  then show ?case by simp
next
  case (Cons g required)
  then obtain found where
    f: "validate_required_loop (JDict skvs) required = Inr found"
    and ff: "filter (\<lambda>e. ve_message e = validate_required_message f) found =
        (if f \<in> set required \<and> f \<notin> set (map fst skvs)
         then [mk_error (''spec.'' @ f) (validate_required_message f)]
         else [])"
    by auto
  from Cons.prems have g: "g \<notin> set required" by simp
  have m: "''Missing required field: '' @ g = validate_required_message g"
    by (simp add: validate_required_message_def)
  show ?case
    using g unfolding validate_required_loop.simps m
    by (auto simp: f ff bindE_simps ve_message_mk_error validate_required_message_inj)
qed

lemma REQUIRED_FIELDS_distinct:
  assumes "map_of REQUIRED_FIELDS k = Some required"
  shows "distinct required"
  using assms unfolding REQUIRED_FIELDS_def by (auto split: if_splits)

lemma validate_cluster_spec_other:
  assumes "validate_cluster_spec spec = Inr es"
  shows "filter (\<lambda>e. ve_message e = validate_required_message f) es = []"
  using assms unfolding validate_cluster_spec_def
  by (auto simp: bindE_def mk_error_def validate_required_message_def
        split: sum.splits if_splits)

lemma validate_machine_spec_other:
  assumes "validate_machine_spec spec = Inr es"
  shows "filter (\<lambda>e. ve_message e = validate_required_message f) es = []"
  using assms unfolding validate_machine_spec_def
  by (auto simp: bindE_def mk_error_def validate_required_message_def
        split: sum.splits if_splits)

lemma validate_machine_deployment_spec_other:
  assumes "validate_machine_deployment_spec spec = Inr es"
  shows "filter (\<lambda>e. ve_message e = validate_required_message f) es = []"
  using assms unfolding validate_machine_deployment_spec_def
  by (auto simp: bindE_def mk_error_def validate_required_message_def
        split: sum.splits if_splits)

lemma validate_cluster_class_spec_other:
  assumes "validate_cluster_class_spec spec = Inr es"
  shows "filter (\<lambda>e. ve_message e = validate_required_message f) es = []"
  using assms unfolding validate_cluster_class_spec_def
  by (auto simp: bindE_def mk_error_def validate_required_message_def
        split: sum.splits if_splits)

lemma validate_kind_specific_other:
  assumes "validate_kind_specific k spec = Inr es"
  shows "filter (\<lambda>e. ve_message e = validate_required_message f) es = []"
  using assms unfolding validate_kind_specific_def
  by (auto simp: validate_cluster_spec_other validate_machine_spec_other
        validate_machine_deployment_spec_other validate_cluster_class_spec_other
        split: if_splits)

lemma validate_spec_required:
  assumes "is_document doc" and "map_of REQUIRED_FIELDS (doc_kind doc) = Some required"
    and "spec_keys doc \<noteq> []"
    and "validate_kind_specific (JStr (doc_kind doc)) (doc_spec doc) = Inr extra"
  shows "\<exists>errs. validate_spec doc = Inr errs
     \<and> filter (\<lambda>e. ve_message e = validate_required_message f) errs =
        (if f \<in> set required \<and> f \<notin> set (spec_keys doc)
         then [mk_error (''spec.'' @ f) (validate_required_message f)]
         else [])"
proof -
  from assms(1) obtain kvs where d: "doc = JDict kvs"
    and k: "string_or_absent (map_of kvs ''kind'')"
    and s: "mapping_or_absent (map_of kvs ''spec'')"
    by (rule is_documentE)
  from doc_get_spec[OF d s] obtain skvs where
    gs: "py_get doc ''spec'' (JDict []) = Inr (JDict skvs)" and ds: "doc_spec doc = JDict skvs"
    and sk: "spec_keys doc = map fst skvs"
    by auto
  from assms(3) sk have t: "truthy (JDict skvs)" by auto
  obtain missing where m: "validate_required_loop (JDict skvs) required = Inr missing"
    "filter (\<lambda>e. ve_message e = validate_required_message f) missing =
        (if f \<in> set required \<and> f \<notin> set (map fst skvs)
         then [mk_error (''spec.'' @ f) (validate_required_message f)]
         else [])"
    using validate_required_loop_filter[OF REQUIRED_FIELDS_distinct[OF assms(2)]] by blast
  have "validate_spec doc = Inr (missing @ extra)"
    unfolding validate_spec_def
    using t assms(4)
    by (simp add: doc_get_kind[OF d k] gs ds assms(2) m(1) bindE_simps)
  then show ?thesis
    using m(2) validate_kind_specific_other[OF assms(4)] sk by simp
qed

lemma validate_spec_empty:
  assumes "is_document doc" and "spec_keys doc = []"
  shows "validate_spec doc = Inr [mk_error ''spec'' ''Missing spec field'']"
proof -
  from assms(1) obtain kvs where d: "doc = JDict kvs"
    and k: "string_or_absent (map_of kvs ''kind'')"
    and s: "mapping_or_absent (map_of kvs ''spec'')"
    by (rule is_documentE)
  from doc_get_spec[OF d s] obtain skvs where
    gs: "py_get doc ''spec'' (JDict []) = Inr (JDict skvs)"
    and sk: "spec_keys doc = map fst skvs"
    by auto
  from assms(2) sk have "skvs = []" by simp
  then show ?thesis
    unfolding validate_spec_def
    by (simp add: doc_get_kind[OF d k] gs bindE_simps)
qed

text \<open>
  C4 (as amended). For every Document of a kind listed in a rule table and every field
  the table requires in its spec:
  the linter returns exactly one finding for the field, of severity ERROR, when the
  field is missing from the spec, unless the document is a Cluster with a topology and
  the field is \<^verbatim>\<open>infrastructureRef\<close> or \<^verbatim>\<open>controlPlaneRef\<close>, and none when the
  field is present;
  the validator, on a document whose spec is not empty and whose kind-specific
  validation completes, returns exactly one error for the field when it is missing from
  the spec and none when it is present;
  and on a document whose spec is missing or empty the validator returns the single
  error "Missing spec field" instead.
\<close>

theorem required_present_rule:
  assumes "is_document doc"
  shows "(map_of CAPI_KINDS (doc_kind doc) = Some required \<and> f \<in> set required \<longrightarrow>
      (\<exists>found. lint_document doc fp ln = Inr found
         \<and> filter (\<lambda>i. li_message i = lint_required_message (doc_kind doc) f) found =
            (if f \<in> set (spec_keys doc) \<or> topology_exempt (doc_kind doc) (spec_keys doc) f
             then []
             else [\<lparr>li_severity = ERROR, li_message = lint_required_message (doc_kind doc) f,
                     li_file = fp, line = Some ln, suggestion = None\<rparr>])))
   \<and> (map_of REQUIRED_FIELDS (doc_kind doc) = Some required' \<and> f' \<in> set required'
        \<and> spec_keys doc \<noteq> []
        \<and> validate_kind_specific (JStr (doc_kind doc)) (doc_spec doc) = Inr extra \<longrightarrow>
      (\<exists>errs. validate_spec doc = Inr errs
         \<and> filter (\<lambda>e. ve_message e = validate_required_message f') errs =
            (if f' \<in> set (spec_keys doc) then []
             else [\<lparr>ve_path = ''spec.'' @ f', ve_message = validate_required_message f',
                     ve_severity = ''error''\<rparr>])))
   \<and> (spec_keys doc = [] \<longrightarrow>
        validate_spec doc =
          Inr [\<lparr>ve_path = ''spec'', ve_message = ''Missing spec field'',
                 ve_severity = ''error''\<rparr>])"
proof (intro conjI impI)
  assume "map_of CAPI_KINDS (doc_kind doc) = Some required \<and> f \<in> set required"
  then show "\<exists>found. lint_document doc fp ln = Inr found
         \<and> filter (\<lambda>i. li_message i = lint_required_message (doc_kind doc) f) found =
            (if f \<in> set (spec_keys doc) \<or> topology_exempt (doc_kind doc) (spec_keys doc) f
             then []
             else [\<lparr>li_severity = ERROR, li_message = lint_required_message (doc_kind doc) f,
                     li_file = fp, line = Some ln, suggestion = None\<rparr>])"
    using lint_document_required[OF assms, of required fp ln f]
    by (auto simp: lint_issue_def)
next
  assume "map_of REQUIRED_FIELDS (doc_kind doc) = Some required' \<and> f' \<in> set required'
        \<and> spec_keys doc \<noteq> []
        \<and> validate_kind_specific (JStr (doc_kind doc)) (doc_spec doc) = Inr extra"
  then show "\<exists>errs. validate_spec doc = Inr errs
         \<and> filter (\<lambda>e. ve_message e = validate_required_message f') errs =
            (if f' \<in> set (spec_keys doc) then []
             else [\<lparr>ve_path = ''spec.'' @ f', ve_message = validate_required_message f',
                     ve_severity = ''error''\<rparr>])"
    using validate_spec_required[OF assms, of required' extra f']
    by (auto simp: mk_error_def)
next
  assume "spec_keys doc = []"
  then show "validate_spec doc =
          Inr [\<lparr>ve_path = ''spec'', ve_message = ''Missing spec field'',
                 ve_severity = ''error''\<rparr>]"
    using validate_spec_empty[OF assms] by (simp add: mk_error_def)
qed

theorem required_present_rule_witness:
  "is_document machine_without_infra
   \<and> doc_kind machine_without_infra = ''Machine''
   \<and> spec_keys machine_without_infra = [''clusterName'', ''bootstrap'']
   \<and> lint_document machine_without_infra ''machine.yaml'' 1 =
       Inr [\<lparr>li_severity = ERROR,
              li_message = ''Missing required spec field for Machine: infrastructureRef'',
              li_file = ''machine.yaml'', line = Some 1, suggestion = None\<rparr>]
   \<and> validate_spec machine_without_infra =
       Inr [\<lparr>ve_path = ''spec.infrastructureRef'',
              ve_message = ''Missing required field: infrastructureRef'',
              ve_severity = ''error''\<rparr>]"
proof -
  have d: "is_document machine_without_infra"
    by (simp add: is_document_def machine_without_infra_def)
  have k: "doc_kind machine_without_infra = ''Machine''"
    by (simp add: doc_kind_def machine_without_infra_def)
  have s: "doc_spec machine_without_infra =
      JDict [(''clusterName'', JStr ''prod''),
             (''bootstrap'', JDict [(''dataSecretName'', JStr ''m0-boot'')])]"
    by (simp add: doc_spec_def machine_without_infra_def)
  have sk: "spec_keys machine_without_infra = [''clusterName'', ''bootstrap'']"
    by (simp add: spec_keys_def s)
  have l: "lint_document machine_without_infra ''machine.yaml'' 1 =
       Inr [\<lparr>li_severity = ERROR,
              li_message = ''Missing required spec field for Machine: infrastructureRef'',
              li_file = ''machine.yaml'', line = Some 1, suggestion = None\<rparr>]"
    by (simp add: machine_without_infra_def lint_eval)
  have v: "validate_spec machine_without_infra =
       Inr [\<lparr>ve_path = ''spec.infrastructureRef'',
              ve_message = ''Missing required field: infrastructureRef'',
              ve_severity = ''error''\<rparr>]"
    by (simp add: machine_without_infra_def validate_eval)
  show ?thesis
    using required_present_rule [OF d,
        of "[''clusterName'', ''bootstrap'', ''infrastructureRef'']" "''infrastructureRef''"
           "''machine.yaml''" 1
           "[''clusterName'', ''bootstrap'', ''infrastructureRef'']" "''infrastructureRef''" "[]"]
      d k sk l v
    by simp
qed

text \<open>
  The claim as stated fails twice. The linter returns no finding for the topology-based
  Cluster, whose spec has neither \<^verbatim>\<open>infrastructureRef\<close> nor
  \<^verbatim>\<open>controlPlaneRef\<close>, both required of a Cluster. The validator returns one error
  for the Cluster with the empty spec, and it is not the one for the missing
  \<^verbatim>\<open>infrastructureRef\<close>.
\<close>

theorem required_present_counterexample:
  "map_of CAPI_KINDS (doc_kind topology_cluster) = Some [''infrastructureRef'', ''controlPlaneRef'']
   \<and> ''infrastructureRef'' \<notin> set (spec_keys topology_cluster)
   \<and> lint_document topology_cluster ''cluster.yaml'' 1 = Inr []
   \<and> map_of REQUIRED_FIELDS (doc_kind empty_spec_cluster) = Some [''infrastructureRef'']
   \<and> ''infrastructureRef'' \<notin> set (spec_keys empty_spec_cluster)
   \<and> validate_spec empty_spec_cluster =
       Inr [\<lparr>ve_path = ''spec'', ve_message = ''Missing spec field'', ve_severity = ''error''\<rparr>]"
  by (simp add: topology_cluster_def empty_spec_cluster_def doc_kind_def doc_spec_def
        spec_keys_def lint_eval validate_eval)

section \<open>Unavailable input: properties\<close>






section \<open>Malformed structure: properties\<close>

text \<open>
  Both resolvers answer "absent" when the path runs into a value that is not a mapping:
  \<^verbatim>\<open>get_nested\<close> returns \<^verbatim>\<open>None\<close> and the walk of the linter's deprecated-field
  check leaves \<^verbatim>\<open>found\<close> false. Neither has a step that can raise.
\<close>

lemma non_mapping_step:
  assumes "non_mapping v"
  shows "get_nested_keys v (k # ks) = JNull" and "\<not> lint_found v (k # ks)"
  using assms by (cases v; simp)+

lemma get_nested_through_non_mapping:
  assumes "spec_resolve d ks = Some v" and "non_mapping v"
  shows "get_nested_keys d (ks @ k # ks') = JNull"
  using assms
  by (induction d ks rule: spec_resolve.induct)
     (auto simp: non_mapping_step split: option.splits)

lemma lint_found_through_non_mapping:
  assumes "spec_resolve d ks = Some v" and "non_mapping v"
  shows "\<not> lint_found d (ks @ k # ks')"
  using assms
  by (induction d ks rule: spec_resolve.induct)
     (auto simp: non_mapping_step split: option.splits)

text \<open>
  The deprecated-field rules of both scripts return their issues for every mapping
  whose kind, when present, is a string, whatever else the document holds or lacks.
\<close>

lemma check_deprecated_fields_total:
  assumes "string_or_absent (map_of kvs ''kind'')"
  shows "\<exists>found. check_deprecated_fields (JDict kvs) fp = Inr found"
  using assms unfolding check_deprecated_fields_def
  by (cases rule: string_or_absent_cases) (auto simp: bindE_simps split: option.splits)

lemma lint_deprecated_total:
  "\<exists>found. lint_deprecated doc (JStr k) fp ln = Inr found"
  unfolding lint_deprecated_def by (auto simp: bindE_simps split: option.splits)

text \<open>
  C9. The resolvers behave as the claim says, also on the Cluster manifest with the
  null spec: the path \<^verbatim>\<open>spec.paused\<close> runs into the null and resolves to absent, the
  migration rules return their issue, and the validator reports the missing spec. The
  linter's required-field rule does not: \<^verbatim>\<open>"topology" in spec\<close> raises
  \<^verbatim>\<open>TypeError\<close> on the null spec, and nothing in \<^verbatim>\<open>lint_file\<close> catches it.
\<close>

theorem lint_document_null_spec_raises:
  "lint_document null_spec_cluster ''cluster.yaml'' 1 = Inl TypeError
   \<and> get_nested null_spec_cluster ''spec.paused'' = JNull
   \<and> lint_found null_spec_cluster (py_split ''spec.paused'') = False
   \<and> lint_deprecated null_spec_cluster (JStr ''Cluster'') ''cluster.yaml'' 1 = Inr []
   \<and> analyze_document null_spec_cluster ''cluster.yaml'' =
       Inr [\<lparr>path = ''cluster.yaml'', field = ''apiVersion'',
              reason = ''v1beta1 is deprecated, will be removed in August 2026'',
              action = ''Migrate to v1beta2 API version'', mi_severity = ''warning''\<rparr>]
   \<and> validate_spec null_spec_cluster =
       Inr [\<lparr>ve_path = ''spec'', ve_message = ''Missing spec field'', ve_severity = ''error''\<rparr>]"
proof -
  have 1: "lint_document null_spec_cluster ''cluster.yaml'' 1 = Inl TypeError"
    by (simp add: null_spec_cluster_def lint_eval)
  have 2: "get_nested null_spec_cluster ''spec.paused'' = JNull"
    "lint_found null_spec_cluster (py_split ''spec.paused'') = False"
    by (simp_all add: null_spec_cluster_def get_nested_def)
  have 3: "lint_deprecated null_spec_cluster (JStr ''Cluster'') ''cluster.yaml'' 1 = Inr []"
    by (simp add: null_spec_cluster_def lint_eval)
  have 4: "analyze_document null_spec_cluster ''cluster.yaml'' =
       Inr [\<lparr>path = ''cluster.yaml'', field = ''apiVersion'',
              reason = ''v1beta1 is deprecated, will be removed in August 2026'',
              action = ''Migrate to v1beta2 API version'', mi_severity = ''warning''\<rparr>]"
    by (simp add: null_spec_cluster_def analyze_document_def check_api_version_def
          check_deprecated_fields_def check_object_references_def check_duration_fields_def
          bindE_simps mk_issue_def DEPRECATED_FIELDS_def OBJECT_REF_FIELDS_def
          duration_fields_def object_ref_issues_def duration_issues_def get_nested_def)
  have 5: "validate_spec null_spec_cluster =
       Inr [\<lparr>ve_path = ''spec'', ve_message = ''Missing spec field'', ve_severity = ''error''\<rparr>]"
    by (simp add: null_spec_cluster_def validate_eval)
  from 1 2 3 4 5 show ?thesis by simp
qed

end
